theory Spec2Isabelle
  imports Complex_Main "HOL-Library.Sublist" "HOL-Library.Monad_Syntax"
begin

section \<open>Python values\<close>

text \<open>
  Every service of the repository works on \<^verbatim>\<open>Dict[str, Any]\<close>: the decoded JSON of a
  request.  A dictionary is an association list read with \<open>map_of\<close>.

  A Python float is a finite real; infinities and NaN are outside this model.  The
  rounding of a double is modelled where a result depends on it: in the conversion of an
  integer (\<open>py_float\<close>) and in the weighted sum whose integer part is the final score
  (\<open>weighted\<close>).  The feature values and the model score, which are compared and bounded
  but never truncated, are computed over the reals.
\<close>

datatype json =
    JNull
  | JBool bool
  | JInt int
  | JFloat real
  | JStr string
  | JList "json list"
  | JObj "(string \<times> json) list"

type_synonym dict = "(string \<times> json) list"

text \<open>
  A step that may raise returns an option: \<open>None\<close> stands for the exception.  Every
  handler of the repository catches \<^verbatim>\<open>Exception\<close> as a whole, so the kind of the
  exception is not recorded.
\<close>

text \<open>\<^verbatim>\<open>d.get(k, default)\<close> on a dictionary.\<close>

definition dict_get :: "dict \<Rightarrow> string \<Rightarrow> json \<Rightarrow> json" where
  "dict_get d k dflt = (case map_of d k of None \<Rightarrow> dflt | Some v \<Rightarrow> v)"

text \<open>
  \<^verbatim>\<open>x.get\<close> exists on dictionaries only and \<^verbatim>\<open>x.lower\<close> on strings only; on any other
  value the attribute access raises AttributeError.
\<close>

definition as_dict :: "json \<Rightarrow> dict option" where
  "as_dict v = (case v of JObj d \<Rightarrow> Some d | _ \<Rightarrow> None)"

definition as_str :: "json \<Rightarrow> string option" where
  "as_str v = (case v of JStr s \<Rightarrow> Some s | _ \<Rightarrow> None)"

text \<open>
  The double nearest to a real, ties to the even significand: 53 significant bits, and
  below \<open>2 ^ - 1022\<close> the fixed spacing \<open>2 ^ - 1074\<close> of the subnormal numbers.  It is the
  result of an arithmetic operation on doubles whose exact result is the argument, as
  long as that is below the overflow threshold \<open>2 ^ 1024 - 2 ^ 970\<close>.
\<close>

definition round_even :: "real \<Rightarrow> int" where
  "round_even y =
     (if y - of_int \<lfloor>y\<rfloor> < 1 / 2 then \<lfloor>y\<rfloor>
      else if 1 / 2 < y - of_int \<lfloor>y\<rfloor> then \<lfloor>y\<rfloor> + 1
      else if even \<lfloor>y\<rfloor> then \<lfloor>y\<rfloor> else \<lfloor>y\<rfloor> + 1)"

definition ulp_exp :: "real \<Rightarrow> int" where
  "ulp_exp x = max \<lfloor>log 2 \<bar>x\<bar>\<rfloor> (- 1022) - 52"

definition dbl :: "real \<Rightarrow> real" where
  "dbl x =
     (if x = 0 then 0
      else of_int (round_even (x / 2 powr of_int (ulp_exp x))) * 2 powr of_int (ulp_exp x))"

text \<open>
  \<^verbatim>\<open>float(x)\<close>.  An integer below \<open>2 ^ 53\<close> in magnitude converts exactly, a larger one
  is rounded, and from \<open>2 ^ 1024 - 2 ^ 970\<close> on the conversion raises OverflowError.
  Parsing the text of a string is the interpreter's business and is taken as the
  parameter \<open>parse\<close> (\<open>None\<close> where \<^verbatim>\<open>float\<close> raises ValueError).  On \<^verbatim>\<open>None\<close>, a list or
  a dictionary \<^verbatim>\<open>float\<close> raises TypeError.
\<close>

definition py_float :: "(string \<Rightarrow> real option) \<Rightarrow> json \<Rightarrow> real option" where
  "py_float parse v =
     (case v of
        JBool b \<Rightarrow> Some (if b then 1 else 0)
      | JInt n \<Rightarrow>
          (if \<bar>n\<bar> < 2 ^ 53 then Some (real_of_int n)
           else if \<bar>n\<bar> < 2 ^ 1024 - 2 ^ 970 then Some (dbl (real_of_int n))
           else None)
      | JFloat r \<Rightarrow> Some r
      | JStr s \<Rightarrow> parse s
      | _ \<Rightarrow> None)"

text \<open>\<^verbatim>\<open>int(x)\<close> on a float truncates towards zero.\<close>

definition py_int :: "real \<Rightarrow> int" where
  "py_int x = (if 0 \<le> x then \<lfloor>x\<rfloor> else \<lceil>x\<rceil>)"

text \<open>\<^verbatim>\<open>s.lower()\<close>, on the ASCII letters.\<close>

definition lower_char :: "char \<Rightarrow> char" where
  "lower_char c =
     (case map_of (zip ''ABCDEFGHIJKLMNOPQRSTUVWXYZ'' ''abcdefghijklmnopqrstuvwxyz'') c of
        Some l \<Rightarrow> l | None \<Rightarrow> c)"

definition lower :: "string \<Rightarrow> string" where
  "lower s = map lower_char s"

section \<open>Scorer service\<close>

subsection \<open>FeatureExtractor\<close>

type_synonym features = "(string \<times> real) list"

definition high_risk_countries :: "string list" where
  "high_risk_countries = [''CN'', ''RU'', ''KP'', ''IR'', ''XX'']"

definition critical_resources :: "string list" where
  "critical_resources = [''database'', ''s3'', ''rds'']"

text \<open>\<^verbatim>\<open>datetime.now(timezone.utc)\<close>: \<open>hour\<close> is 0..23 and \<open>weekday\<close> is 0..6 (Monday 0).\<close>

record clock =
  hour :: nat
  weekday :: nat

definition ind :: "bool \<Rightarrow> real" where
  "ind b = (if b then 1 else 0)"

text \<open>The body of the \<^verbatim>\<open>try\<close> block of \<^verbatim>\<open>extract_features\<close>.\<close>

definition extract_features_try ::
  "(string \<Rightarrow> real option) \<Rightarrow> clock \<Rightarrow> dict \<Rightarrow> dict \<Rightarrow> features option" where
  "extract_features_try parse now event enrichments = do {
     geo \<leftarrow> as_dict (dict_get enrichments ''geo'' (JObj []));
     asn \<leftarrow> py_float parse (dict_get geo ''asn'' (JInt 0));
     threat_intel \<leftarrow> as_dict (dict_get enrichments ''threat_intel'' (JObj []));
     rep \<leftarrow> py_float parse (dict_get threat_intel ''rep_score'' (JInt 50));
     asset_context \<leftarrow> as_dict (dict_get enrichments ''asset_context'' (JObj []));
     crit \<leftarrow> py_float parse (dict_get asset_context ''criticality'' (JInt 1));
     action_raw \<leftarrow> as_str (dict_get event ''action'' (JStr []));
     resource \<leftarrow> as_dict (dict_get event ''resource'' (JObj []));
     type_raw \<leftarrow> as_str (dict_get resource ''type'' (JStr []));
     sev \<leftarrow> py_float parse (dict_get event ''severity_hint'' (JInt 1));
     Some (let action = lower action_raw; resource_type = lower type_raw in
       [(''asn'', asn),
        (''is_high_risk_country'',
           ind (dict_get geo ''country_code'' (JStr []) \<in> set (map JStr high_risk_countries))),
        (''rep_score'', rep / 100),
        (''is_malicious'', ind (dict_get threat_intel ''ip_rep'' JNull = JStr ''malicious'')),
        (''is_suspicious'', ind (dict_get threat_intel ''ip_rep'' JNull = JStr ''suspicious'')),
        (''asset_criticality'', crit / 5),
        (''is_prod_environment'', ind (dict_get asset_context ''environment'' JNull = JStr ''prod'')),
        (''hour_of_day'', real (hour now) / 24),
        (''day_of_week'', real (weekday now) / 7),
        (''is_weekend'', ind (5 \<le> weekday now)),
        (''is_business_hours'', ind (9 \<le> hour now \<and> hour now \<le> 17)),
        (''is_login_action'', ind (sublist ''login'' action)),
        (''is_failed_action'', ind (sublist ''failed'' action \<or> sublist ''fail'' action)),
        (''is_admin_action'', ind (sublist ''admin'' action \<or> sublist ''root'' action)),
        (''is_critical_resource'', ind (resource_type \<in> set critical_resources)),
        (''severity_hint'', sev / 5)])
   }"

text \<open>Any exception of the body is caught and the empty feature set returned.\<close>

definition extract_features ::
  "(string \<Rightarrow> real option) \<Rightarrow> clock \<Rightarrow> dict \<Rightarrow> dict \<Rightarrow> features" where
  "extract_features parse now event enrichments =
     (case extract_features_try parse now event enrichments of
        None \<Rightarrow> [] | Some f \<Rightarrow> f)"

subsection \<open>RuleEngine\<close>

text \<open>\<^verbatim>\<open>f.get(k, 0)\<close> on a feature dictionary.\<close>

definition fget :: "features \<Rightarrow> string \<Rightarrow> real" where
  "fget f k = (case map_of f k of None \<Rightarrow> 0 | Some v \<Rightarrow> v)"

record rule =
  name :: string
  condition :: "features \<Rightarrow> bool"
  score :: int
  description :: string

definition rules :: "rule list" where
  "rules =
    [\<lparr>name = ''high_risk_country_admin'',
      condition = (\<lambda>f. fget f ''is_high_risk_country'' = 1 \<and> fget f ''is_admin_action'' = 1),
      score = 40, description = ''Admin action from high-risk country''\<rparr>,
     \<lparr>name = ''malicious_ip_access'',
      condition = (\<lambda>f. fget f ''is_malicious'' = 1),
      score = 50, description = ''Access from malicious IP''\<rparr>,
     \<lparr>name = ''failed_login_suspicious_ip'',
      condition = (\<lambda>f. fget f ''is_failed_action'' = 1 \<and> fget f ''is_suspicious'' = 1),
      score = 30, description = ''Failed login from suspicious IP''\<rparr>,
     \<lparr>name = ''critical_resource_access'',
      condition = (\<lambda>f. fget f ''is_critical_resource'' = 1 \<and> fget f ''is_prod_environment'' = 1),
      score = 20, description = ''Access to critical production resource''\<rparr>,
     \<lparr>name = ''weekend_admin_activity'',
      condition = (\<lambda>f. fget f ''is_weekend'' = 1 \<and> fget f ''is_admin_action'' = 1),
      score = 15, description = ''Admin activity during weekend''\<rparr>,
     \<lparr>name = ''high_severity_event'',
      condition = (\<lambda>f. fget f ''severity_hint'' \<ge> 0.8),
      score = 25, description = ''High severity event''\<rparr>,
     \<lparr>name = ''off_hours_activity'',
      condition = (\<lambda>f. fget f ''is_business_hours'' = 0 \<and> fget f ''is_critical_resource'' = 1),
      score = 10, description = ''Off-hours access to critical resource''\<rparr>]"

text \<open>
  The loop of \<^verbatim>\<open>calculate_rule_score\<close>, with its two accumulators.  On a dictionary of
  floats no condition raises, so the \<^verbatim>\<open>except\<close> branches are never taken.
\<close>

fun rule_loop ::
  "rule list \<Rightarrow> features \<Rightarrow> int \<times> (string \<times> int \<times> string) list
     \<Rightarrow> int \<times> (string \<times> int \<times> string) list" where
  "rule_loop [] f acc = acc"
| "rule_loop (r # rs) f (total_score, triggered) =
     rule_loop rs f
       (if condition r f
        then (total_score + score r, triggered @ [(name r, score r, description r)])
        else (total_score, triggered))"

record rule_result =
  rule_score :: int
  triggered_rules :: "(string \<times> int \<times> string) list"
  total_rules_checked :: nat

definition calculate_rule_score :: "features \<Rightarrow> rule_result" where
  "calculate_rule_score f =
     (case rule_loop rules f (0, []) of
        (total_score, triggered) \<Rightarrow>
          \<lparr>rule_score = min total_score 100,
           triggered_rules = triggered,
           total_rules_checked = length rules\<rparr>)"

subsection \<open>MLModel\<close>

definition feature_weights :: "(string \<times> real) list" where
  "feature_weights =
    [(''is_malicious'', 0.4),
     (''rep_score'', 0.3),
     (''is_high_risk_country'', 0.2),
     (''asset_criticality'', 0.25),
     (''is_prod_environment'', 0.15),
     (''is_admin_action'', 0.3),
     (''is_failed_action'', 0.2),
     (''is_business_hours'', - 0.1),
     (''severity_hint'', 0.2),
     (''is_critical_resource'', 0.3),
     (''is_suspicious'', 0.25)]"

fun weight_loop :: "(string \<times> real) list \<Rightarrow> features \<Rightarrow> real \<times> nat \<Rightarrow> real \<times> nat" where
  "weight_loop [] f acc = acc"
| "weight_loop ((feature, weight) # ws) f (raw, weights_used) =
     weight_loop ws f
       (case map_of f feature of
          Some v \<Rightarrow> (raw + v * weight, weights_used + 1)
        | None \<Rightarrow> (raw, weights_used))"

record ml_result =
  model_score :: real
  confidence :: real
  model_version :: string
  features_used :: nat
  raw_score :: real

text \<open>
  \<^verbatim>\<open>predict\<close>.  \<open>len(features)\<close> counts the keys of the dictionary, which for the
  association list is the number of distinct keys.  On finite floats nothing in the body
  raises, so the \<^verbatim>\<open>except\<close> branch (score 50, confidence 0.1) is never taken.
\<close>

definition predict :: "features \<Rightarrow> ml_result" where
  "predict f =
     (case weight_loop feature_weights f (0, 0) of
        (raw, weights_used) \<Rightarrow>
          let raw' = (if weights_used > 0 then raw / max (real weights_used * 0.1) 1.0 else raw);
              probability = (if weights_used > 0 then 1 / (1 + exp (- raw')) else 0.5);
              keys = remdups (map fst f);
              feature_completeness =
                (if keys \<noteq> []
                 then real (length (filter (\<lambda>k. map_of f k \<noteq> Some 0) keys)) / real (length keys)
                 else 0)
          in \<lparr>model_score = probability * 100,
              confidence = min (0.3 + feature_completeness * 0.7) 1.0,
              model_version = ''1.0.0'',
              features_used = length keys,
              raw_score = raw'\<rparr>)"

subsection \<open>RiskScorer\<close>

text \<open>
  Line 281: 70 percent model, 30 percent rules.  The argument of \<^verbatim>\<open>int\<close> is computed
  in doubles: the literals are the doubles nearest to 0.7 and 0.3, the integer rule score
  is converted, and each product and the sum are rounded.
\<close>

definition weighted :: "real \<Rightarrow> int \<Rightarrow> real" where
  "weighted m r = dbl (dbl (m * dbl 0.7) + dbl (dbl (real_of_int r) * dbl 0.3))"

definition fuse :: "real \<Rightarrow> int \<Rightarrow> int" where
  "fuse m r = min (py_int (weighted m r)) 100"

record scoring_result =
  sr_model_score :: real
  sr_rule_score :: int
  final_score :: int
  sr_confidence :: real
  sr_model_version :: string
  sr_triggered_rules :: "string list"
  features_extracted :: nat

text \<open>
  \<^verbatim>\<open>score_event\<close>, without its wall-clock fields (\<^verbatim>\<open>processing_time_ms\<close>,
  \<^verbatim>\<open>scored_at\<close>).  The extraction, the rule engine and the model catch their own
  exceptions, and on finite floats \<^verbatim>\<open>int\<close> does not raise: the handler of lines 300 to
  308 is taken only for a NaN or an infinity, which this model does not have.
\<close>

definition score_event ::
  "(string \<Rightarrow> real option) \<Rightarrow> clock \<Rightarrow> dict \<Rightarrow> dict \<Rightarrow> scoring_result" where
  "score_event parse now event enrichments =
     (let f = extract_features parse now event enrichments;
          rule_res = calculate_rule_score f;
          ml_res = predict f
      in \<lparr>sr_model_score = model_score ml_res,
          sr_rule_score = rule_score rule_res,
          final_score = fuse (model_score ml_res) (rule_score rule_res),
          sr_confidence = confidence ml_res,
          sr_model_version = model_version ml_res,
          sr_triggered_rules = map fst (triggered_rules rule_res),
          features_extracted = length (remdups (map fst f))\<rparr>)"

section \<open>Ingest lambda\<close>

text \<open>
  \<^verbatim>\<open>validate_event_schema\<close> and \<^verbatim>\<open>normalize_event\<close> are the same in
  \<^verbatim>\<open>services/lambda-ingest/index.py\<close> and in \<^verbatim>\<open>infra/envs/dev/index.py\<close>.
\<close>

text \<open>Truth value of a Python object in a condition.\<close>

definition truthy :: "json \<Rightarrow> bool" where
  "truthy v =
     (case v of
        JNull \<Rightarrow> False
      | JBool b \<Rightarrow> b
      | JInt n \<Rightarrow> n \<noteq> 0
      | JFloat r \<Rightarrow> r \<noteq> 0
      | JStr s \<Rightarrow> s \<noteq> []
      | JList l \<Rightarrow> l \<noteq> []
      | JObj d \<Rightarrow> d \<noteq> [])"

text \<open>
  \<^verbatim>\<open>k in x\<close> for a string \<open>k\<close>: a key of a dictionary, a substring of a string, an
  element of a list; TypeError on anything else.
\<close>

definition py_in :: "string \<Rightarrow> json \<Rightarrow> bool option" where
  "py_in k x =
     (case x of
        JObj d \<Rightarrow> Some (map_of d k \<noteq> None)
      | JStr s \<Rightarrow> Some (sublist k s)
      | JList l \<Rightarrow> Some (JStr k \<in> set l)
      | _ \<Rightarrow> None)"

text \<open>\<^verbatim>\<open>d[k] = v\<close>: an existing key keeps its place, a new key goes last.\<close>

fun dict_set :: "dict \<Rightarrow> string \<Rightarrow> json \<Rightarrow> dict" where
  "dict_set [] k v = [(k, v)]"
| "dict_set ((k', v') # d) k v = (if k' = k then (k, v) # d else (k', v') # dict_set d k v)"

definition required_fields :: "string list" where
  "required_fields = [''source'', ''actor'', ''action'', ''resource'']"

fun validate_loop :: "string list \<Rightarrow> json \<Rightarrow> (bool \<times> string option) option" where
  "validate_loop [] event_data = Some (True, None)"
| "validate_loop (field # rest) event_data =
     (case py_in field event_data of
        None \<Rightarrow> None
      | Some present \<Rightarrow>
          if \<not> present then Some (False, Some (''Missing required field: '' @ field))
          else validate_loop rest event_data)"

definition validate_event_schema :: "json \<Rightarrow> (bool \<times> string option) option" where
  "validate_event_schema event_data = validate_loop required_fields event_data"

text \<open>
  \<^verbatim>\<open>normalize_event\<close>.  \<open>fresh\<close> is the text of \<^verbatim>\<open>uuid.uuid4()\<close> and \<open>now\<close> the
  timestamp of the call.  The assignment \<^verbatim>\<open>actor['ip'] = source_ip\<close> needs a dictionary.
\<close>

definition normalize_event :: "string \<Rightarrow> string \<Rightarrow> json \<Rightarrow> json \<Rightarrow> dict option" where
  "normalize_event fresh now raw_event source_ip = do {
     raw \<leftarrow> as_dict raw_event;
     let event_id = dict_get raw ''event_id'' (JStr fresh);
     let actor = dict_get raw ''actor'' (JObj []);
     has_ip \<leftarrow> py_in ''ip'' actor;
     actor' \<leftarrow> (if \<not> has_ip \<and> truthy source_ip
                then map_option (\<lambda>a. JObj (dict_set a ''ip'' source_ip)) (as_dict actor)
                else Some actor);
     Some [(''event_id'', event_id),
           (''source'', dict_get raw ''source'' JNull),
           (''received_at'', JStr now),
           (''actor'', actor'),
           (''action'', dict_get raw ''action'' JNull),
           (''resource'', dict_get raw ''resource'' JNull),
           (''severity_hint'', dict_get raw ''severity_hint'' (JInt 1)),
           (''payload'', dict_get raw ''payload'' (JObj [])),
           (''schema_ver'', JStr ''1.0'')]
   }"

text \<open>
  One turn of the loop of \<^verbatim>\<open>lambda_handler\<close>, up to the normalized event: rejected by the
  validation, failed with an exception, or normalized.
\<close>

datatype outcome = Rejected string | Failed | Normalized dict

definition ingest_event :: "string \<Rightarrow> string \<Rightarrow> json \<Rightarrow> json \<Rightarrow> outcome" where
  "ingest_event fresh now source_ip raw_event =
     (case validate_event_schema raw_event of
        None \<Rightarrow> Failed
      | Some (is_valid, error_msg) \<Rightarrow>
          if \<not> is_valid then Rejected (case error_msg of None \<Rightarrow> [] | Some m \<Rightarrow> m)
          else (case normalize_event fresh now raw_event source_ip of
                  None \<Rightarrow> Failed
                | Some normalized \<Rightarrow> Normalized normalized))"

section \<open>Enricher service\<close>

text \<open>
  What the services take from their environment: the interpreter's \<^verbatim>\<open>hash\<close> of a string,
  the current timestamp, the measured processing time and the text \<^verbatim>\<open>str(e)\<close> of a caught
  exception.
\<close>

record runtime =
  hash :: "string \<Rightarrow> int"
  now_iso :: string
  processing_time :: int
  exc_text :: string

text \<open>\<^verbatim>\<open>d.get(k1, {}).get(k2, default)\<close>; the second \<^verbatim>\<open>get\<close> needs a dictionary.\<close>

definition get2 :: "dict \<Rightarrow> string \<Rightarrow> string \<Rightarrow> json \<Rightarrow> json option" where
  "get2 d k1 k2 dflt = map_option (\<lambda>inner. dict_get inner k2 dflt) (as_dict (dict_get d k1 (JObj [])))"

subsection \<open>ThreatIntelligenceService\<close>

definition lookup_ip_reputation_try :: "runtime \<Rightarrow> json \<Rightarrow> dict option" where
  "lookup_ip_reputation_try rt ip_address = do {
     ip \<leftarrow> as_str ip_address;
     let score_hash = sum_list (map (\<lambda>c. int (of_char c :: nat)) ip) mod 100;
     let (reputation, reputation_score) =
       (if prefix ''10.'' ip \<or> prefix ''192.168.'' ip then (''clean'', 10 :: int)
        else if sublist ''127.'' ip \<or> sublist ''0.0.0.0'' ip then (''suspicious'', 60)
        else if score_hash < 15 then (''malicious'', 90)
        else if score_hash < 40 then (''suspicious'', 60)
        else (''clean'', 15));
     Some [(''ip_rep'', JStr reputation),
           (''rep_score'', JInt reputation_score),
           (''feeds'', JList [JStr ''mock_threat_feed'']),
           (''last_updated'', JStr (now_iso rt))]
   }"

definition threat_intel_fallback :: "runtime \<Rightarrow> dict" where
  "threat_intel_fallback rt =
     [(''ip_rep'', JStr ''unknown''),
      (''rep_score'', JInt 50),
      (''feeds'', JList []),
      (''error'', JStr (exc_text rt))]"

definition lookup_ip_reputation :: "runtime \<Rightarrow> json \<Rightarrow> dict" where
  "lookup_ip_reputation rt ip_address =
     (case lookup_ip_reputation_try rt ip_address of
        Some r \<Rightarrow> r | None \<Rightarrow> threat_intel_fallback rt)"

subsection \<open>GeoLocationService\<close>

definition countries :: "(string \<times> string \<times> int) list" where
  "countries =
     [(''United States'', ''US'', 13335),
      (''India'', ''IN'', 13238),
      (''United Kingdom'', ''GB'', 12345),
      (''Germany'', ''DE'', 54321)]"

definition lookup_ip_location_try :: "runtime \<Rightarrow> json \<Rightarrow> dict option" where
  "lookup_ip_location_try rt ip_address = do {
     ip \<leftarrow> as_str ip_address;
     Some (if prefix ''10.'' ip \<or> prefix ''192.168.'' ip
           then [(''country'', JStr ''US''),
                 (''country_code'', JStr ''US''),
                 (''region'', JStr ''CA''),
                 (''city'', JStr ''San Francisco''),
                 (''latitude'', JFloat 37.7749),
                 (''longitude'', JFloat (- 122.4194)),
                 (''asn'', JInt 13335),
                 (''org'', JStr ''Private Network'')]
           else (case countries ! nat (hash rt ip mod 4) of
                   (country, code, asn) \<Rightarrow>
                     [(''country'', JStr country),
                      (''country_code'', JStr code),
                      (''asn'', JInt asn),
                      (''org'', JStr (''ISP-'' @ code))]))
   }"

definition geo_fallback :: dict where
  "geo_fallback =
     [(''country'', JStr ''unknown''),
      (''country_code'', JStr ''XX''),
      (''asn'', JInt 0),
      (''org'', JStr ''unknown'')]"

definition lookup_ip_location :: "runtime \<Rightarrow> json \<Rightarrow> dict" where
  "lookup_ip_location rt ip_address =
     (case lookup_ip_location_try rt ip_address of
        Some r \<Rightarrow> r | None \<Rightarrow> geo_fallback)"

subsection \<open>AssetContextService\<close>

definition get_asset_context_try :: "json \<Rightarrow> json \<Rightarrow> dict option" where
  "get_asset_context_try asset_id asset_type = do {
     is_dev \<leftarrow> py_in ''dev'' asset_id;
     is_test \<leftarrow> (if is_dev then Some True else py_in ''test'' asset_id);
     Some [(''asset_id'', asset_id),
           (''asset_type'', asset_type),
           (''environment'', JStr (if is_dev \<or> is_test then ''dev'' else ''prod'')),
           (''criticality'', JInt (if asset_type \<in> {JStr ''database'', JStr ''s3''} then 3 else 1)),
           (''owner'', JStr ''security-team''),
           (''tags'', JObj [(''project'', JStr ''secureops360''),
                            (''managed_by'', JStr ''terraform'')])]
   }"

definition asset_fallback :: "json \<Rightarrow> json \<Rightarrow> dict" where
  "asset_fallback asset_id asset_type =
     [(''asset_id'', asset_id),
      (''asset_type'', asset_type),
      (''environment'', JStr ''unknown''),
      (''criticality'', JInt 1),
      (''owner'', JStr ''unknown''),
      (''tags'', JObj [])]"

definition get_asset_context :: "json \<Rightarrow> json \<Rightarrow> dict" where
  "get_asset_context asset_id asset_type =
     (case get_asset_context_try asset_id asset_type of
        Some r \<Rightarrow> r | None \<Rightarrow> asset_fallback asset_id asset_type)"

subsection \<open>EventEnricher\<close>

text \<open>
  The body of the \<^verbatim>\<open>try\<close> block of \<^verbatim>\<open>enrich_event\<close>.  The three lookups are awaited
  one after the other; each catches its own exceptions.
\<close>

definition enrich_event_try :: "runtime \<Rightarrow> dict \<Rightarrow> dict option" where
  "enrich_event_try rt event = do {
     actor_ip \<leftarrow> get2 event ''actor'' ''ip'' JNull;
     let enrichments1 =
       (if truthy actor_ip
        then [(''threat_intel'', JObj (lookup_ip_reputation rt actor_ip)),
              (''geo'', JObj (lookup_ip_location rt actor_ip))]
        else []);
     resource_id \<leftarrow> get2 event ''resource'' ''id'' JNull;
     resource_type \<leftarrow> get2 event ''resource'' ''type'' JNull;
     let enrichments2 =
       (if truthy resource_id \<and> truthy resource_type
        then enrichments1 @ [(''asset_context'', JObj (get_asset_context resource_id resource_type))]
        else enrichments1);
     let enrichments =
       enrichments2 @
         [(''enrichment_metadata'',
           JObj [(''enriched_at'', JStr (now_iso rt)),
                 (''enricher_version'', JStr ''1.0.0''),
                 (''processing_time_ms'', JInt (processing_time rt)),
                 (''enrichments_added'', JInt (int (length enrichments2)))])];
     Some (dict_set (dict_set event ''enrichments'' (JObj enrichments)) ''status'' (JStr ''enriched''))
   }"

text \<open>An exception of the body is caught: the event comes back with the error text.\<close>

definition enrich_event :: "runtime \<Rightarrow> dict \<Rightarrow> dict" where
  "enrich_event rt event =
     (case enrich_event_try rt event of
        Some enriched_event \<Rightarrow> enriched_event
      | None \<Rightarrow> dict_set event ''enrichment_error'' (JStr (exc_text rt)))"

section \<open>Rule engine: capped additive score\<close>

lemma rule_loop_filter:
  "rule_loop rs f (t, tr) =
     (t + sum_list (map score (filter (\<lambda>r. condition r f) rs)),
      tr @ map (\<lambda>r. (name r, score r, description r)) (filter (\<lambda>r. condition r f) rs))"
  by (induction rs arbitrary: t tr) simp_all

text \<open>
  Claim C1.  For every feature vector, \<open>rule_score\<close> is the sum of the points of the rules
  whose conditions hold, capped at 100, so a sum past 100 gives exactly 100; the triggered
  names are those rules' names in the order of the table, which is the fixed order of the
  seven rules.
\<close>

theorem rule_score_capped_sum:
  "rule_score (calculate_rule_score f) =
     min (sum_list (map score (filter (\<lambda>r. condition r f) rules))) 100
   \<and> map fst (triggered_rules (calculate_rule_score f)) =
       map name (filter (\<lambda>r. condition r f) rules)
   \<and> map name rules =
       [''high_risk_country_admin'', ''malicious_ip_access'', ''failed_login_suspicious_ip'',
        ''critical_resource_access'', ''weekend_admin_activity'', ''high_severity_event'',
        ''off_hours_activity'']
   \<and> map score rules = [40, 50, 30, 20, 15, 25, 10]
   \<and> (100 < sum_list (map score (filter (\<lambda>r. condition r f) rules))
        \<longrightarrow> rule_score (calculate_rule_score f) = 100)"
proof -
  have loop: "rule_loop rules f (0, []) =
      (sum_list (map score (filter (\<lambda>r. condition r f) rules)),
       map (\<lambda>r. (name r, score r, description r)) (filter (\<lambda>r. condition r f) rules))"
    by (simp add: rule_loop_filter)
  have tab: "map name rules =
       [''high_risk_country_admin'', ''malicious_ip_access'', ''failed_login_suspicious_ip'',
        ''critical_resource_access'', ''weekend_admin_activity'', ''high_severity_event'',
        ''off_hours_activity'']" "map score rules = [40, 50, 30, 20, 15, 25, 10]"
    by (simp_all add: rules_def)
  show ?thesis
    unfolding calculate_rule_score_def loop using tab by (simp add: comp_def)
qed

theorem rule_score_capped_sum_witness:
  "100 < sum_list (map score (filter (\<lambda>r. condition r
       [(''is_high_risk_country'', 1), (''is_malicious'', 1), (''is_admin_action'', 1),
        (''severity_hint'', 1)]) rules))
   \<and> rule_score (calculate_rule_score
       [(''is_high_risk_country'', 1), (''is_malicious'', 1), (''is_admin_action'', 1),
        (''severity_hint'', 1)]) = 100"
  using rule_score_capped_sum [of "[(''is_high_risk_country'', 1), (''is_malicious'', 1),
        (''is_admin_action'', 1), (''severity_hint'', 1)]"]
  by (simp add: rules_def fget_def)

section \<open>Rounding to the nearest double\<close>

lemma round_even_err: "\<bar>of_int (round_even y) - y\<bar> \<le> 1 / 2"
  unfolding round_even_def by (auto simp: abs_le_iff)

lemma round_even_nonneg: "0 \<le> y \<Longrightarrow> 0 \<le> round_even y"
  unfolding round_even_def by (auto simp: add_nonneg_nonneg)

lemma dbl_nonneg: "0 \<le> x \<Longrightarrow> 0 \<le> dbl x"
  unfolding dbl_def by (auto intro!: mult_nonneg_nonneg round_even_nonneg)

lemma dbl_err:
  assumes "\<bar>x\<bar> < 2 ^ n"
  shows "\<bar>dbl x - x\<bar> \<le> 2 ^ n / 2 ^ 54"
proof (cases "x = 0")
  case True
  then show ?thesis by (simp add: dbl_def)
next
  case False
  define u :: real where "u = 2 powr of_int (ulp_exp x)"
  have upos: "0 < u" by (simp add: u_def)
  have "log 2 \<bar>x\<bar> < real n"
    using assms False by (simp add: log_less_iff powr_realpow)
  hence "\<lfloor>log 2 \<bar>x\<bar>\<rfloor> < int n"
    by (simp add: floor_less_iff)
  hence "ulp_exp x \<le> int n - 53"
    by (simp add: ulp_exp_def)
  hence "u \<le> 2 powr of_int (int n - 53)"
    unfolding u_def by (intro powr_mono) simp_all
  also have "\<dots> = 2 ^ n / 2 ^ 53"
    by (simp add: powr_diff powr_realpow)
  finally have ule: "u \<le> 2 ^ n / 2 ^ 53" .
  have "dbl x - x = (of_int (round_even (x / u)) - x / u) * u"
    using False upos by (simp add: dbl_def u_def field_simps)
  hence "\<bar>dbl x - x\<bar> = \<bar>of_int (round_even (x / u)) - x / u\<bar> * u"
    using upos by (simp add: abs_mult)
  also have "\<dots> \<le> (1 / 2) * u"
    using round_even_err upos by (intro mult_right_mono) simp_all
  also have "\<dots> \<le> (1 / 2) * (2 ^ n / 2 ^ 53)"
    using ule by simp
  finally show ?thesis by simp
qed

lemma dbl_eval:
  assumes pos: "0 < x" and lo: "2 ^ 52 \<le> x * 2 ^ p" and hi: "x * 2 ^ p < 2 ^ 53"
    and p: "p \<le> 1074"
  shows "dbl x = of_int (round_even (x * 2 ^ p)) / 2 ^ p"
proof -
  have e: "\<lfloor>log 2 \<bar>x\<bar>\<rfloor> = 52 - int p"
  proof -
    have a: "(2::real) powr of_int (52 - int p) = 2 ^ 52 / 2 ^ p"
      by (simp add: powr_diff powr_realpow)
    have b: "(2::real) powr of_int (52 - int p + 1) = 2 ^ 53 / 2 ^ p"
      by (simp add: powr_diff powr_realpow algebra_simps)
    have l: "2 ^ 52 / 2 ^ p \<le> x"
      using lo by (simp add: pos_divide_le_eq)
    have h: "x < 2 ^ 53 / 2 ^ p"
      using hi by (simp add: pos_less_divide_eq)
    have "2 powr of_int (52 - int p) \<le> x \<and> x < 2 powr of_int (52 - int p + 1)"
      unfolding a b using l h by simp
    thus ?thesis
      using pos by (simp add: floor_log_eq_powr_iff)
  qed
  have "ulp_exp x = - int p"
    using p by (simp add: ulp_exp_def e)
  hence "(2::real) powr of_int (ulp_exp x) = 1 / 2 ^ p"
    by (simp add: powr_minus_divide powr_realpow)
  thus ?thesis using pos by (simp add: dbl_def)
qed

lemma dbl_07: "dbl 0.7 = 3152519739159347 / 2 ^ 52"
proof -
  have "dbl 0.7 = of_int (round_even (0.7 * 2 ^ 53)) / 2 ^ 53"
    by (rule dbl_eval) simp_all
  also have "round_even (0.7 * 2 ^ 53) = 6305039478318694"
    by (simp add: round_even_def)
  finally show ?thesis by simp
qed

lemma dbl_03: "dbl 0.3 = 5404319552844595 / 2 ^ 54"
proof -
  have "dbl 0.3 = of_int (round_even (0.3 * 2 ^ 54)) / 2 ^ 54"
    by (rule dbl_eval) simp_all
  also have "round_even (0.3 * 2 ^ 54) = 5404319552844595"
    by (simp add: round_even_def)
  finally show ?thesis by simp
qed

lemma weighted_nonneg:
  assumes "0 \<le> m" "0 \<le> r"
  shows "0 \<le> weighted m r"
  unfolding weighted_def using assms
  by (intro dbl_nonneg add_nonneg_nonneg mult_nonneg_nonneg) simp_all

lemma weighted_err:
  assumes m: "0 \<le> m" "m \<le> 100" and r: "0 \<le> r" "r \<le> 100"
  shows "\<bar>weighted m r - (m * 0.7 + real_of_int r * 0.3)\<bar> \<le> 1 / 2 ^ 40"
proof -
  define P1 where "P1 = dbl (m * (3152519739159347 / 2 ^ 52))"
  define R where "R = dbl (real_of_int r)"
  define P2 where "P2 = dbl (R * (5404319552844595 / 2 ^ 54))"
  have rr: "0 \<le> real_of_int r" "real_of_int r \<le> 100" using r by simp_all
  have e1: "\<bar>P1 - m * (3152519739159347 / 2 ^ 52)\<bar> \<le> 2 ^ 7 / 2 ^ 54"
    unfolding P1_def using m by (intro dbl_err) (simp add: abs_if)
  have eR: "\<bar>R - real_of_int r\<bar> \<le> 2 ^ 7 / 2 ^ 54"
    unfolding R_def using rr by (intro dbl_err) (simp add: abs_if)
  have k: "(2::real) ^ 7 / 2 ^ 54 = 1 / 140737488355328" by simp
  have Rb: "\<bar>R\<bar> \<le> 101" using eR rr unfolding k by linarith
  have e2: "\<bar>P2 - R * (5404319552844595 / 2 ^ 54)\<bar> \<le> 2 ^ 7 / 2 ^ 54"
    unfolding P2_def using Rb by (intro dbl_err) (simp add: abs_mult)
  have c: "(3152519739159347 :: real) / 2 ^ 52 = 3152519739159347 / 4503599627370496"
    "(5404319552844595 :: real) / 2 ^ 54 = 5404319552844595 / 18014398509481984"
    by simp_all
  have P1b: "\<bar>P1\<bar> \<le> 71" using e1 m unfolding k c by linarith
  have P2b: "\<bar>P2\<bar> \<le> 31" using e2 Rb unfolding k c by linarith
  have e3: "\<bar>dbl (P1 + P2) - (P1 + P2)\<bar> \<le> 2 ^ 7 / 2 ^ 54"
    using P1b P2b by (intro dbl_err) simp
  have w: "weighted m r = dbl (P1 + P2)"
    by (simp add: weighted_def P1_def P2_def R_def dbl_07 dbl_03)
  have t: "(1::real) / 2 ^ 40 = 1 / 1099511627776" by simp
  show ?thesis
    unfolding w t using e1 eR e2 e3 m rr unfolding k c by linarith
qed

lemma fuse_floor:
  assumes "0 \<le> m" "0 \<le> r"
  shows "fuse m r = \<lfloor>min (weighted m r) 100\<rfloor>" "0 \<le> fuse m r" "fuse m r \<le> 100"
proof -
  have x0: "0 \<le> weighted m r" using assms by (rule weighted_nonneg)
  have pi: "py_int (weighted m r) = \<lfloor>weighted m r\<rfloor>" using x0 by (simp add: py_int_def)
  have fl: "\<lfloor>min (weighted m r) 100\<rfloor> = min \<lfloor>weighted m r\<rfloor> 100"
    by (simp add: min_def le_floor_iff floor_le_iff) linarith
  have nn: "0 \<le> \<lfloor>weighted m r\<rfloor>" using x0 by simp
  show "fuse m r = \<lfloor>min (weighted m r) 100\<rfloor>" unfolding fuse_def pi fl ..
  show "0 \<le> fuse m r" unfolding fuse_def pi using nn by simp
  show "fuse m r \<le> 100" unfolding fuse_def by simp
qed

lemma floor_close:
  fixes x y :: real
  assumes "\<bar>x - y\<bar> < 1"
  shows "\<bar>\<lfloor>x\<rfloor> - \<lfloor>y\<rfloor>\<bar> \<le> 1"
  using assms by (simp add: abs_le_iff abs_less_iff) linarith

lemma fuse_90_0: "fuse 90 0 = 62"
proof -
  have p: "dbl (90 * (3152519739159347 / 2 ^ 52)) = 8866461766385663 / 2 ^ 47"
  proof -
    have "dbl (90 * (3152519739159347 / 2 ^ 52)) =
        of_int (round_even (90 * (3152519739159347 / 2 ^ 52) * 2 ^ 47)) / 2 ^ 47"
      by (rule dbl_eval) simp_all
    also have "round_even (90 * (3152519739159347 / 2 ^ 52) * 2 ^ 47) = 8866461766385663"
      by (simp add: round_even_def)
    finally show ?thesis by simp
  qed
  have s: "dbl (8866461766385663 / 2 ^ 47) = 8866461766385663 / 2 ^ 47"
  proof -
    have "dbl (8866461766385663 / 2 ^ 47) =
        of_int (round_even (8866461766385663 / 2 ^ 47 * 2 ^ 47)) / 2 ^ 47"
      by (rule dbl_eval) simp_all
    also have "round_even (8866461766385663 / 2 ^ 47 * 2 ^ 47) = 8866461766385663"
      by (simp add: round_even_def)
    finally show ?thesis by simp
  qed
  have z: "dbl (real_of_int 0) = 0" "dbl (0 * (5404319552844595 / 2 ^ 54)) = 0"
    by (simp_all add: dbl_def)
  have a: "8866461766385663 / 2 ^ 47 + (0::real) = 8866461766385663 / 2 ^ 47" by simp
  have w: "weighted 90 0 = 8866461766385663 / 2 ^ 47"
    unfolding weighted_def dbl_07 dbl_03 p z a s ..
  show ?thesis unfolding fuse_def w by (simp add: py_int_def)
qed

section \<open>Score fusion\<close>

text \<open>
  Claim C2, as the code has it.  For a model score and a rule score in [0,100], the fused
  score is the floor of \<open>min s 100\<close>, where \<open>s\<close> is \<open>model_score * 0.7 + rule_score * 0.3\<close>
  evaluated in doubles; it is a function of the two scores alone and an integer in
  [0,100].  The double \<open>s\<close> lies within \<open>2 ^ - 40\<close> of the exact sum, so the fused score
  differs from the floor of the exact \<open>min (model_score * 0.7 + rule_score * 0.3) 100\<close> by
  at most 1.
\<close>

theorem fuse_floor_min:
  assumes "0 \<le> m" "m \<le> 100" "0 \<le> r" "r \<le> 100"
  shows "fuse m r = \<lfloor>min (weighted m r) 100\<rfloor>
         \<and> 0 \<le> fuse m r \<and> fuse m r \<le> 100
         \<and> \<bar>weighted m r - (m * 0.7 + real_of_int r * 0.3)\<bar> \<le> 1 / 2 ^ 40
         \<and> \<bar>fuse m r - \<lfloor>min (m * 0.7 + real_of_int r * 0.3) 100\<rfloor>\<bar> \<le> 1"
proof -
  let ?x = "weighted m r"
  let ?e = "m * 0.7 + real_of_int r * 0.3"
  have f: "fuse m r = \<lfloor>min ?x 100\<rfloor>" "0 \<le> fuse m r" "fuse m r \<le> 100"
    using assms(1,3) by (rule fuse_floor)+
  have err: "\<bar>?x - ?e\<bar> \<le> 1 / 2 ^ 40"
    using assms by (rule weighted_err)
  hence "\<bar>?x - ?e\<bar> < 1"
    by (rule order_le_less_trans) simp
  hence c: "\<bar>\<lfloor>?x\<rfloor> - \<lfloor>?e\<rfloor>\<bar> \<le> 1"
    by (rule floor_close)
  have fx: "\<lfloor>min ?x 100\<rfloor> = min \<lfloor>?x\<rfloor> 100"
    by (simp add: min_def le_floor_iff floor_le_iff) linarith
  have fe: "\<lfloor>min ?e 100\<rfloor> = min \<lfloor>?e\<rfloor> 100"
    by (simp add: min_def le_floor_iff floor_le_iff) linarith
  have "\<bar>fuse m r - \<lfloor>min ?e 100\<rfloor>\<bar> \<le> 1"
    unfolding f(1) fx fe using c by linarith
  with f err show ?thesis by blast
qed

theorem fuse_floor_min_witness:
  "0 \<le> fuse 50 95 \<and> fuse 50 95 \<le> 100 \<and> \<bar>fuse 50 95 - 63\<bar> \<le> 1"
proof -
  have h: "(0::real) \<le> 50" "(50::real) \<le> 100" "(0::int) \<le> 95" "(95::int) \<le> 100"
    by simp_all
  have e: "\<lfloor>min (50 * 0.7 + real_of_int 95 * 0.3) 100 :: real\<rfloor> = 63"
    by simp
  from fuse_floor_min [OF h] show ?thesis
    unfolding e by blast
qed

text \<open>
  Claim C2 as stated fails: for a model score of 90 and a rule score of 0 the double
  product is just below 63 and the fused score is 62, while the floor of the exact
  \<open>min (90 * 0.7 + 0 * 0.3) 100\<close> is 63.
\<close>

theorem fuse_exact_formula_counterexample:
  "fuse 90 0 = 62 \<and> \<lfloor>min (90 * 0.7 + real_of_int 0 * 0.3) 100 :: real\<rfloor> = 63"
  by (simp add: fuse_90_0)

section \<open>Model scorer: monotone in the reputation score\<close>

lemma weight_loop_sum:
  "weight_loop ws f (raw, u) =
     (raw + (\<Sum>(k, w) \<leftarrow> ws. case map_of f k of Some v \<Rightarrow> v * w | None \<Rightarrow> 0),
      u + (\<Sum>(k, w) \<leftarrow> ws. case map_of f k of Some v \<Rightarrow> 1 | None \<Rightarrow> 0))"
  by (induction ws arbitrary: raw u) (auto split: option.splits)

lemma sigmoid_mono: "x \<le> y \<Longrightarrow> 1 / (1 + exp (- x)) \<le> 1 / (1 + exp (- (y::real)))"
  by (intro divide_left_mono add_left_mono) (simp_all add: add_pos_pos)

text \<open>
  Claim C4.  Two feature vectors that agree on every feature but \<open>rep_score\<close>, the second
  with the larger or equal \<open>rep_score\<close>: the model score of the second is at least the
  model score of the first.
\<close>

theorem predict_mono_rep_score:
  assumes agree: "\<forall>k. k \<noteq> ''rep_score'' \<longrightarrow> map_of f1 k = map_of f2 k"
    and r1: "map_of f1 ''rep_score'' = Some a"
    and r2: "map_of f2 ''rep_score'' = Some b"
    and le: "a \<le> b"
  shows "model_score (predict f1) \<le> model_score (predict f2)"
proof -
  have ag: "\<And>k. k \<noteq> ''rep_score'' \<Longrightarrow> map_of f1 k = map_of f2 k"
    using agree by blast
  obtain R1 U1 where w1: "weight_loop feature_weights f1 (0, 0) = (R1, U1)"
    by (cases "weight_loop feature_weights f1 (0, 0)")
  obtain R2 U2 where w2: "weight_loop feature_weights f2 (0, 0) = (R2, U2)"
    by (cases "weight_loop feature_weights f2 (0, 0)")
  have R1: "R1 = (\<Sum>(k, w) \<leftarrow> feature_weights. case map_of f1 k of Some v \<Rightarrow> v * w | None \<Rightarrow> 0)"
    and U1: "U1 = (\<Sum>(k, w) \<leftarrow> feature_weights. case map_of f1 k of Some v \<Rightarrow> 1 | None \<Rightarrow> 0)"
    using w1 by (simp_all add: weight_loop_sum)
  have R2: "R2 = (\<Sum>(k, w) \<leftarrow> feature_weights. case map_of f2 k of Some v \<Rightarrow> v * w | None \<Rightarrow> 0)"
    and U2: "U2 = (\<Sum>(k, w) \<leftarrow> feature_weights. case map_of f2 k of Some v \<Rightarrow> 1 | None \<Rightarrow> 0)"
    using w2 by (simp_all add: weight_loop_sum)
  have U: "U1 = U2"
    unfolding U1 U2 feature_weights_def by (simp add: ag r1 r2)
  have Upos: "0 < U2"
    unfolding U2 feature_weights_def by (simp add: r2)
  have R: "R2 = R1 + b * 0.3 - a * 0.3"
    unfolding R1 R2 feature_weights_def by (simp add: ag r1 r2)
  have Rle: "R1 \<le> R2" using R le by simp
  have "R1 / max (real U2 * 0.1) 1.0 \<le> R2 / max (real U2 * 0.1) 1.0"
    using Rle by (intro divide_right_mono) simp_all
  hence "1 / (1 + exp (- (R1 / max (real U2 * 0.1) 1.0)))
         \<le> 1 / (1 + exp (- (R2 / max (real U2 * 0.1) 1.0)))"
    by (rule sigmoid_mono)
  thus ?thesis
    using Upos by (simp add: predict_def w1 w2 U Let_def)
qed

theorem predict_mono_rep_score_witness:
  "model_score (predict [(''rep_score'', 0.1), (''is_malicious'', 1)])
     \<le> model_score (predict [(''rep_score'', 0.9), (''is_malicious'', 1)])"
proof -
  have agree: "\<forall>k. k \<noteq> ''rep_score'' \<longrightarrow>
       map_of [(''rep_score'', 0.1::real), (''is_malicious'', 1)] k =
       map_of [(''rep_score'', 0.9::real), (''is_malicious'', 1)] k"
    by simp
  have r1: "map_of [(''rep_score'', 0.1::real), (''is_malicious'', 1)] ''rep_score'' = Some 0.1"
    and r2: "map_of [(''rep_score'', 0.9::real), (''is_malicious'', 1)] ''rep_score'' = Some 0.9"
    and le: "(0.1::real) \<le> 0.9"
    by simp_all
  show ?thesis by (rule predict_mono_rep_score [OF agree r1 r2 le])
qed

section \<open>Feature extraction: inputs out of range\<close>

text \<open>
  Claim C3 fails on the code: lines 69, 75 and 96 divide by 100, 5 and 5 under the comment
  ``Normalize to 0-1'' and clamp nothing.  A reputation score of 150, a criticality of 10
  and a severity hint of 10 give the features \<open>rep_score\<close> 1.5, \<open>asset_criticality\<close> 2 and
  \<open>severity_hint\<close> 2, all above 1.
\<close>

theorem extract_features_out_of_range:
  "map_of (extract_features Map.empty \<lparr>hour = 12, weekday = 0\<rparr>
       [(''action'', JStr ''AdminLoginFailed''),
        (''resource'', JObj [(''type'', JStr ''database''), (''id'', JStr ''prod-db'')]),
        (''severity_hint'', JInt 10)]
       [(''threat_intel'', JObj [(''ip_rep'', JStr ''malicious''), (''rep_score'', JInt 150)]),
        (''asset_context'', JObj [(''environment'', JStr ''prod''), (''criticality'', JInt 10)])])
     ''rep_score'' = Some (3 / 2)
   \<and> map_of (extract_features Map.empty \<lparr>hour = 12, weekday = 0\<rparr>
       [(''action'', JStr ''AdminLoginFailed''),
        (''resource'', JObj [(''type'', JStr ''database''), (''id'', JStr ''prod-db'')]),
        (''severity_hint'', JInt 10)]
       [(''threat_intel'', JObj [(''ip_rep'', JStr ''malicious''), (''rep_score'', JInt 150)]),
        (''asset_context'', JObj [(''environment'', JStr ''prod''), (''criticality'', JInt 10)])])
     ''asset_criticality'' = Some 2
   \<and> map_of (extract_features Map.empty \<lparr>hour = 12, weekday = 0\<rparr>
       [(''action'', JStr ''AdminLoginFailed''),
        (''resource'', JObj [(''type'', JStr ''database''), (''id'', JStr ''prod-db'')]),
        (''severity_hint'', JInt 10)]
       [(''threat_intel'', JObj [(''ip_rep'', JStr ''malicious''), (''rep_score'', JInt 150)]),
        (''asset_context'', JObj [(''environment'', JStr ''prod''), (''criticality'', JInt 10)])])
     ''severity_hint'' = Some 2
   \<and> (1::real) < 3 / 2 \<and> (1::real) < 2"
  by (simp add: extract_features_def extract_features_try_def dict_get_def as_dict_def
        as_str_def py_float_def Let_def)

section \<open>Degraded extraction\<close>

lemma predict_empty:
  "predict [] = \<lparr>model_score = 50, confidence = 0.3, model_version = ''1.0.0'',
                  features_used = 0, raw_score = 0\<rparr>"
  by (simp add: predict_def feature_weights_def)

lemma calculate_rule_score_empty:
  "calculate_rule_score [] = \<lparr>rule_score = 0, triggered_rules = [], total_rules_checked = 7\<rparr>"
  by (simp add: calculate_rule_score_def rules_def fget_def)

lemma fuse_50_0: "fuse 50 0 = 35"
proof -
  have p: "dbl (50 * (3152519739159347 / 2 ^ 52)) = 35"
  proof -
    have "dbl (50 * (3152519739159347 / 2 ^ 52)) =
        of_int (round_even (50 * (3152519739159347 / 2 ^ 52) * 2 ^ 47)) / 2 ^ 47"
      by (rule dbl_eval) simp_all
    also have "round_even (50 * (3152519739159347 / 2 ^ 52) * 2 ^ 47) = 4925812092436480"
      by (simp add: round_even_def)
    finally show ?thesis by simp
  qed
  have s: "dbl 35 = 35"
  proof -
    have "dbl 35 = of_int (round_even (35 * 2 ^ 47)) / 2 ^ 47"
      by (rule dbl_eval) simp_all
    also have "round_even (35 * 2 ^ 47) = 4925812092436480"
      by (simp add: round_even_def)
    finally show ?thesis by simp
  qed
  have z: "dbl (real_of_int 0) = 0" "dbl (0 * (5404319552844595 / 2 ^ 54)) = 0"
    by (simp_all add: dbl_def)
  have a: "35 + (0::real) = 35" by simp
  have w: "weighted 50 0 = 35"
    unfolding weighted_def dbl_07 dbl_03 p z a s ..
  show ?thesis unfolding fuse_def w by (simp add: py_int_def)
qed

text \<open>
  Claim C6, as the code has it.  When the extraction degrades to the empty feature set,
  the pipeline still returns a result: no rule triggers, the model takes its neutral prior
  (score 50), the confidence is 0.3 (the completeness formula on no features) and the
  final score is 35.
\<close>

theorem score_event_degraded:
  assumes "extract_features_try parse now event enrichments = None"
  shows "extract_features parse now event enrichments = []
       \<and> score_event parse now event enrichments =
           \<lparr>sr_model_score = 50, sr_rule_score = 0, final_score = 35, sr_confidence = 0.3,
            sr_model_version = ''1.0.0'', sr_triggered_rules = [], features_extracted = 0\<rparr>"
  using assms
  by (simp add: score_event_def extract_features_def predict_empty calculate_rule_score_empty
        fuse_50_0)

theorem score_event_degraded_witness:
  "extract_features_try Map.empty \<lparr>hour = 12, weekday = 0\<rparr> []
       [(''threat_intel'', JObj [(''rep_score'', JNull)])] = None
   \<and> final_score (score_event Map.empty \<lparr>hour = 12, weekday = 0\<rparr> []
       [(''threat_intel'', JObj [(''rep_score'', JNull)])]) = 35"
proof -
  have h: "extract_features_try Map.empty \<lparr>hour = 12, weekday = 0\<rparr> []
       [(''threat_intel'', JObj [(''rep_score'', JNull)])] = None"
    by (simp add: extract_features_try_def dict_get_def as_dict_def py_float_def)
  show ?thesis using h score_event_degraded [OF h] by simp
qed

text \<open>
  Claim C6 as stated fails: on a null reputation score the extraction degrades and the
  confidence of the result is 0.3, not 0.1.
\<close>

theorem degraded_confidence_counterexample:
  "extract_features Map.empty \<lparr>hour = 12, weekday = 0\<rparr> []
       [(''threat_intel'', JObj [(''rep_score'', JNull)])] = []
   \<and> sr_model_score (score_event Map.empty \<lparr>hour = 12, weekday = 0\<rparr> []
       [(''threat_intel'', JObj [(''rep_score'', JNull)])]) = 50
   \<and> sr_confidence (score_event Map.empty \<lparr>hour = 12, weekday = 0\<rparr> []
       [(''threat_intel'', JObj [(''rep_score'', JNull)])]) = 3 / 10
   \<and> sr_confidence (score_event Map.empty \<lparr>hour = 12, weekday = 0\<rparr> []
       [(''threat_intel'', JObj [(''rep_score'', JNull)])]) \<noteq> 1 / 10"
proof -
  have e: "extract_features Map.empty \<lparr>hour = 12, weekday = 0\<rparr> []
       [(''threat_intel'', JObj [(''rep_score'', JNull)])] = []"
    by (simp add: extract_features_def extract_features_try_def dict_get_def as_dict_def
          py_float_def)
  show ?thesis
    by (simp add: score_event_def e predict_empty calculate_rule_score_empty)
qed

section \<open>Scenario A\<close>

lemma exp_197_110_lower: "213 / 37 \<le> exp (197 / 110 :: real)"
proof -
  have "(1 + (197 / 110) / of_nat 64) ^ 64 \<le> exp (197 / 110 :: real)"
    by (rule exp_ge_one_plus_x_over_n_power_n) simp_all
  moreover have "(213 / 37 :: real) \<le> (1 + (197 / 110) / of_nat 64) ^ 64"
    by (simp add: power_divide)
  ultimately show ?thesis by linarith
qed

lemma exp_207_110_lower: "43 / 7 \<le> exp (207 / 110 :: real)"
proof -
  have "(1 + (207 / 110) / of_nat 64) ^ 64 \<le> exp (207 / 110 :: real)"
    by (rule exp_ge_one_plus_x_over_n_power_n) simp_all
  moreover have "(43 / 7 :: real) \<le> (1 + (207 / 110) / of_nat 64) ^ 64"
    by (simp add: power_divide)
  ultimately show ?thesis by linarith
qed

lemma exp_neg_197_110_lower: "4 / 25 < exp (- (197 / 110) :: real)"
proof -
  have "(1 + (- (197 / 110)) / of_nat 64) ^ 64 \<le> exp (- (197 / 110) :: real)"
    by (rule exp_ge_one_plus_x_over_n_power_n) simp_all
  moreover have "(4 / 25 :: real) < (1 + (- (197 / 110)) / of_nat 64) ^ 64"
    by (simp add: power_divide)
  ultimately show ?thesis by linarith
qed


lemma sigmoid_lower:
  fixes x a c :: real
  assumes c: "c \<le> exp a" and a: "a \<le> x" and pos: "0 < c"
  shows "100 * c / (c + 1) \<le> 100 / (1 + exp (- x))"
proof -
  have "c \<le> exp x" using c a by (meson exp_le_cancel_iff order_trans)
  hence "exp (- x) \<le> 1 / c"
    using pos by (simp add: exp_minus field_simps)
  hence "1 + exp (- x) \<le> (c + 1) / c"
    using pos by (simp add: field_simps)
  moreover have "0 < 1 + exp (- x)" by (simp add: add_pos_pos)
  moreover have "0 < (c + 1) / c" using pos by simp
  ultimately have "100 / ((c + 1) / c) \<le> 100 / (1 + exp (- x))"
    by (intro divide_left_mono mult_pos_pos) simp_all
  thus ?thesis by simp
qed

lemma model_score_predict:
  "model_score (predict f) =
     (case weight_loop feature_weights f (0, 0) of
        (raw, u) \<Rightarrow> if u > 0 then 100 / (1 + exp (- (raw / max (real u * 0.1) 1))) else 50)"
  by (simp add: predict_def Let_def split: prod.splits)

lemma scenario_scores:
  fixes asn hod dow :: real and hrc we bh :: bool
  defines "f \<equiv>
     [(''asn'', asn), (''is_high_risk_country'', ind hrc), (''rep_score'', 9 / 10),
      (''is_malicious'', 1), (''is_suspicious'', 0), (''asset_criticality'', 1),
      (''is_prod_environment'', 1), (''hour_of_day'', hod), (''day_of_week'', dow),
      (''is_weekend'', ind we), (''is_business_hours'', ind bh), (''is_login_action'', 1),
      (''is_failed_action'', 1), (''is_admin_action'', 1), (''is_critical_resource'', 1),
      (''severity_hint'', 1)]"
  shows "rule_score (calculate_rule_score f) =
           min (95 + (if hrc then 40 else 0) + (if we then 15 else 0) + (if bh then 0 else 10)) 100"
    and "map fst (triggered_rules (calculate_rule_score f)) =
           (if hrc then [''high_risk_country_admin''] else []) @
           [''malicious_ip_access'', ''critical_resource_access''] @
           (if we then [''weekend_admin_activity''] else []) @
           [''high_severity_event''] @
           (if bh then [] else [''off_hours_activity''])"
    and "model_score (predict f) =
           100 / (1 + exp (- ((207 / 100 + ind hrc / 5 - ind bh / 10) / (11 / 10))))"
proof -
  show "rule_score (calculate_rule_score f) =
           min (95 + (if hrc then 40 else 0) + (if we then 15 else 0) + (if bh then 0 else 10)) 100"
    unfolding f_def by (simp add: calculate_rule_score_def rules_def fget_def ind_def)
  show "map fst (triggered_rules (calculate_rule_score f)) =
           (if hrc then [''high_risk_country_admin''] else []) @
           [''malicious_ip_access'', ''critical_resource_access''] @
           (if we then [''weekend_admin_activity''] else []) @
           [''high_severity_event''] @
           (if bh then [] else [''off_hours_activity''])"
    unfolding f_def by (simp add: calculate_rule_score_def rules_def fget_def ind_def)
  have w: "weight_loop feature_weights f (0, 0) = (207 / 100 + ind hrc / 5 - ind bh / 10, 11)"
    unfolding f_def feature_weights_def by simp
  show "model_score (predict f) =
           100 / (1 + exp (- ((207 / 100 + ind hrc / 5 - ind bh / 10) / (11 / 10))))"
    unfolding model_score_predict w by simp
qed

lemma ind_simps: "ind True = 1" "ind False = 0"
  by (simp_all add: ind_def)

lemma fuse_lower:
  assumes e: "real_of_int k + 1 / 2 ^ 40 \<le> m * 0.7 + real_of_int r * 0.3"
    and k: "k \<le> 100" and m: "0 \<le> m" "m \<le> 100" and r: "0 \<le> r" "r \<le> 100"
  shows "k \<le> fuse m r"
proof -
  have "\<bar>weighted m r - (m * 0.7 + real_of_int r * 0.3)\<bar> \<le> 1 / 2 ^ 40"
    using m r by (rule weighted_err)
  hence "real_of_int k \<le> weighted m r"
    using e by linarith
  hence "k \<le> \<lfloor>weighted m r\<rfloor>"
    by (simp add: le_floor_iff)
  moreover have "py_int (weighted m r) = \<lfloor>weighted m r\<rfloor>"
    using weighted_nonneg [OF m(1) r(1)] by (simp add: py_int_def)
  ultimately show ?thesis using k by (simp add: fuse_def)
qed

lemma fuse_upper:
  assumes e: "m * 0.7 + real_of_int r * 0.3 + 1 / 2 ^ 40 < real_of_int k + 1"
    and m: "0 \<le> m" "m \<le> 100" and r: "0 \<le> r" "r \<le> 100"
  shows "fuse m r \<le> k"
proof -
  have "\<bar>weighted m r - (m * 0.7 + real_of_int r * 0.3)\<bar> \<le> 1 / 2 ^ 40"
    using m r by (rule weighted_err)
  hence "weighted m r < real_of_int k + 1"
    using e by linarith
  hence "\<lfloor>weighted m r\<rfloor> \<le> k"
    by (simp add: floor_le_iff)
  moreover have "py_int (weighted m r) = \<lfloor>weighted m r\<rfloor>"
    using weighted_nonneg [OF m(1) r(1)] by (simp add: py_int_def)
  ultimately show ?thesis by (simp add: fuse_def)
qed

lemma sigmoid_le_100: "100 / (1 + exp (- x)) \<le> (100 :: real)"
  by (simp add: field_simps add_pos_pos)

lemma sigmoid_nonneg: "0 \<le> 100 / (1 + exp (- x :: real))"
  by (simp add: add_nonneg_nonneg)

text \<open>
  Claim C5, as the code has it.  The scenario-A event (action AdminLoginFailed, a database
  resource, severity hint 5) with a malicious reputation of score 90, a prod asset of
  criticality 5 and any geo bundle whose \<open>asn\<close> converts to a float: at every evaluation
  time the
  rules \<open>malicious_ip_access\<close>, \<open>critical_resource_access\<close> and \<open>high_severity_event\<close> are
  triggered, the rule score lies between 95 and 100, and the final score is at least 88.
  It is at least 90 when the evaluation falls outside business hours or the country is
  high-risk.
\<close>

theorem scenario_A_score:
  assumes act: "map_of event ''action'' = Some (JStr ''AdminLoginFailed'')"
    and res: "map_of event ''resource'' = Some (JObj resource)"
    and res1: "map_of resource ''type'' = Some (JStr ''database'')"
    and sev: "map_of event ''severity_hint'' = Some (JInt 5)"
    and ti: "map_of enrichments ''threat_intel'' = Some (JObj threat_intel)"
    and ti1: "map_of threat_intel ''ip_rep'' = Some (JStr ''malicious'')"
    and ti2: "map_of threat_intel ''rep_score'' = Some (JInt 90)"
    and ac: "map_of enrichments ''asset_context'' = Some (JObj asset_context)"
    and ac1: "map_of asset_context ''environment'' = Some (JStr ''prod'')"
    and ac2: "map_of asset_context ''criticality'' = Some (JInt 5)"
    and geo: "map_of enrichments ''geo'' = Some (JObj geo)"
    and geo1: "py_float parse (dict_get geo ''asn'' (JInt 0)) = Some asn"
  shows "95 \<le> sr_rule_score (score_event parse now event enrichments)
       \<and> sr_rule_score (score_event parse now event enrichments) \<le> 100
       \<and> {''malicious_ip_access'', ''critical_resource_access'', ''high_severity_event''}
            \<subseteq> set (sr_triggered_rules (score_event parse now event enrichments))
       \<and> 88 \<le> final_score (score_event parse now event enrichments)
       \<and> (\<not> (9 \<le> hour now \<and> hour now \<le> 17)
            \<or> dict_get geo ''country_code'' (JStr []) \<in> set (map JStr high_risk_countries)
          \<longrightarrow> 90 \<le> final_score (score_event parse now event enrichments))"
proof -
  define hrc where "hrc = (dict_get geo ''country_code'' (JStr []) \<in> set (map JStr high_risk_countries))"
  define we where "we = (5 \<le> weekday now)"
  define bh where "bh = (9 \<le> hour now \<and> hour now \<le> 17)"
  define f where "f = extract_features parse now event enrichments"
  have d: "dict_get event ''action'' (JStr []) = JStr ''AdminLoginFailed''"
      "dict_get event ''resource'' (JObj []) = JObj resource"
      "dict_get resource ''type'' (JStr []) = JStr ''database''"
      "dict_get event ''severity_hint'' (JInt 1) = JInt 5"
      "dict_get enrichments ''threat_intel'' (JObj []) = JObj threat_intel"
      "dict_get threat_intel ''ip_rep'' JNull = JStr ''malicious''"
      "dict_get threat_intel ''rep_score'' (JInt 50) = JInt 90"
      "dict_get enrichments ''asset_context'' (JObj []) = JObj asset_context"
      "dict_get asset_context ''environment'' JNull = JStr ''prod''"
      "dict_get asset_context ''criticality'' (JInt 1) = JInt 5"
      "dict_get enrichments ''geo'' (JObj []) = JObj geo"
    using assms by (simp_all add: dict_get_def)
  have pf: "py_float parse (JInt 90) = Some 90" "py_float parse (JInt 5) = Some 5"
    by (simp_all add: py_float_def)
  have low: "lower ''AdminLoginFailed'' = ''adminloginfailed''" "lower ''database'' = ''database''"
    by (simp_all add: lower_def lower_char_def)
  have f: "f = [(''asn'', asn), (''is_high_risk_country'', ind hrc), (''rep_score'', 9 / 10),
      (''is_malicious'', 1), (''is_suspicious'', 0), (''asset_criticality'', 1),
      (''is_prod_environment'', 1), (''hour_of_day'', real (hour now) / 24),
      (''day_of_week'', real (weekday now) / 7),
      (''is_weekend'', ind we), (''is_business_hours'', ind bh), (''is_login_action'', 1),
      (''is_failed_action'', 1), (''is_admin_action'', 1), (''is_critical_resource'', 1),
      (''severity_hint'', 1)]"
    unfolding f_def extract_features_def extract_features_try_def
    by (simp add: d pf geo1 as_dict_def as_str_def low sublist_Cons_right
          critical_resources_def hrc_def we_def bh_def ind_simps)
  have rs: "rule_score (calculate_rule_score f) =
           min (95 + (if hrc then 40 else 0) + (if we then 15 else 0) + (if bh then 0 else 10)) 100"
    unfolding f by (rule scenario_scores(1))
  have tr: "map fst (triggered_rules (calculate_rule_score f)) =
           (if hrc then [''high_risk_country_admin''] else []) @
           [''malicious_ip_access'', ''critical_resource_access''] @
           (if we then [''weekend_admin_activity''] else []) @
           [''high_severity_event''] @
           (if bh then [] else [''off_hours_activity''])"
    unfolding f by (rule scenario_scores(2))
  have ms: "model_score (predict f) =
           100 / (1 + exp (- ((207 / 100 + ind hrc / 5 - ind bh / 10) / (11 / 10))))"
    unfolding f by (rule scenario_scores(3))
  have r95: "95 \<le> rule_score (calculate_rule_score f)" and r100: "rule_score (calculate_rule_score f) \<le> 100"
    unfolding rs by simp_all
  have x1: "197 / 110 \<le> (207 / 100 + ind hrc / 5 - ind bh / 10) / (11 / 10)"
    by (simp add: ind_def)
  have "100 * (213 / 37) / (213 / 37 + 1) \<le> model_score (predict f)"
    unfolding ms by (rule sigmoid_lower [OF exp_197_110_lower x1]) simp
  hence m85: "426 / 5 \<le> model_score (predict f)" by simp
  have m100: "model_score (predict f) \<le> 100"
    unfolding ms by (rule sigmoid_le_100)
  have fin88: "88 \<le> fuse (model_score (predict f)) (rule_score (calculate_rule_score f))"
    by (rule fuse_lower) (use m85 m100 r95 r100 in simp_all)
  have fin90: "90 \<le> fuse (model_score (predict f)) (rule_score (calculate_rule_score f))"
    if c: "\<not> bh \<or> hrc"
  proof -
    have x2: "207 / 110 \<le> (207 / 100 + ind hrc / 5 - ind bh / 10) / (11 / 10)"
      using c by (auto simp: ind_def)
    have "100 * (43 / 7) / (43 / 7 + 1) \<le> model_score (predict f)"
      unfolding ms by (rule sigmoid_lower [OF exp_207_110_lower x2]) simp
    hence m: "86 \<le> model_score (predict f)" by simp
    have r: "rule_score (calculate_rule_score f) = 100"
      unfolding rs using c by auto
    show ?thesis
      by (rule fuse_lower) (use m m100 r in simp_all)
  qed
  have se: "sr_rule_score (score_event parse now event enrichments) = rule_score (calculate_rule_score f)"
    "sr_triggered_rules (score_event parse now event enrichments) = map fst (triggered_rules (calculate_rule_score f))"
    "final_score (score_event parse now event enrichments) = fuse (model_score (predict f)) (rule_score (calculate_rule_score f))"
    by (simp_all add: score_event_def f_def Let_def)
  have names: "{''malicious_ip_access'', ''critical_resource_access'', ''high_severity_event''}
            \<subseteq> set (map fst (triggered_rules (calculate_rule_score f)))"
    unfolding tr by simp
  show ?thesis
    unfolding se using r95 r100 names fin88 fin90
    unfolding hrc_def bh_def by blast
qed

theorem scenario_A_score_witness:
  "map_of [(''source'', JStr ''cloudtrail''),
           (''actor'', JObj [(''id'', JStr ''admin@x''), (''ip'', JStr ''203.0.113.1'')]),
           (''action'', JStr ''AdminLoginFailed''),
           (''resource'', JObj [(''type'', JStr ''database''), (''id'', JStr ''prod-db'')]),
           (''severity_hint'', JInt 5)] ''action'' = Some (JStr ''AdminLoginFailed'')
   \<and> 90 \<le> final_score (score_event Map.empty \<lparr>hour = 3, weekday = 5\<rparr>
          [(''source'', JStr ''cloudtrail''),
           (''actor'', JObj [(''id'', JStr ''admin@x''), (''ip'', JStr ''203.0.113.1'')]),
           (''action'', JStr ''AdminLoginFailed''),
           (''resource'', JObj [(''type'', JStr ''database''), (''id'', JStr ''prod-db'')]),
           (''severity_hint'', JInt 5)]
          [(''threat_intel'', JObj [(''ip_rep'', JStr ''malicious''), (''rep_score'', JInt 90)]),
           (''geo'', JObj [(''country_code'', JStr ''US''), (''asn'', JInt 13335)]),
           (''asset_context'', JObj [(''environment'', JStr ''prod''), (''criticality'', JInt 5)])])"
proof -
  let ?event = "[(''source'', JStr ''cloudtrail''),
           (''actor'', JObj [(''id'', JStr ''admin@x''), (''ip'', JStr ''203.0.113.1'')]),
           (''action'', JStr ''AdminLoginFailed''),
           (''resource'', JObj [(''type'', JStr ''database''), (''id'', JStr ''prod-db'')]),
           (''severity_hint'', JInt 5)]"
  let ?enr = "[(''threat_intel'', JObj [(''ip_rep'', JStr ''malicious''), (''rep_score'', JInt 90)]),
           (''geo'', JObj [(''country_code'', JStr ''US''), (''asn'', JInt 13335)]),
           (''asset_context'', JObj [(''environment'', JStr ''prod''), (''criticality'', JInt 5)])]"
  have act: "map_of ?event ''action'' = Some (JStr ''AdminLoginFailed'')" by simp
  have res: "map_of ?event ''resource'' =
      Some (JObj [(''type'', JStr ''database''), (''id'', JStr ''prod-db'')])" by simp
  have res1: "map_of [(''type'', JStr ''database''), (''id'', JStr ''prod-db'')] ''type'' =
      Some (JStr ''database'')" by simp
  have sev: "map_of ?event ''severity_hint'' = Some (JInt 5)" by simp
  have ti: "map_of ?enr ''threat_intel'' =
      Some (JObj [(''ip_rep'', JStr ''malicious''), (''rep_score'', JInt 90)])" by simp
  have ti1: "map_of [(''ip_rep'', JStr ''malicious''), (''rep_score'', JInt 90)] ''ip_rep'' =
      Some (JStr ''malicious'')" by simp
  have ti2: "map_of [(''ip_rep'', JStr ''malicious''), (''rep_score'', JInt 90)] ''rep_score'' =
      Some (JInt 90)" by simp
  have ac: "map_of ?enr ''asset_context'' =
      Some (JObj [(''environment'', JStr ''prod''), (''criticality'', JInt 5)])" by simp
  have ac1: "map_of [(''environment'', JStr ''prod''), (''criticality'', JInt 5)] ''environment'' =
      Some (JStr ''prod'')" by simp
  have ac2: "map_of [(''environment'', JStr ''prod''), (''criticality'', JInt 5)] ''criticality'' =
      Some (JInt 5)" by simp
  have geo: "map_of ?enr ''geo'' =
      Some (JObj [(''country_code'', JStr ''US''), (''asn'', JInt 13335)])" by simp
  have geo1: "py_float Map.empty
      (dict_get [(''country_code'', JStr ''US''), (''asn'', JInt 13335)] ''asn'' (JInt 0)) =
      Some 13335" by (simp add: dict_get_def py_float_def)
  note t = scenario_A_score [OF act res res1 sev ti ti1 ti2 ac ac1 ac2 geo geo1,
      where now = "\<lparr>hour = 3, weekday = 5\<rparr>"]
  have off: "\<not> (9 \<le> hour \<lparr>hour = 3, weekday = 5\<rparr> \<and> hour \<lparr>hour = 3, weekday = 5\<rparr> \<le> 17)"
    by simp
  from t off have "90 \<le> final_score (score_event Map.empty \<lparr>hour = 3, weekday = 5\<rparr> ?event ?enr)"
    by blast
  with act show ?thesis by (rule conjI)
qed

text \<open>
  Claim C5 as stated fails: on a Monday at 12:00 UTC with a geo bundle for the US the rule
  score is 95, the model score lies between 85 and 86.3, and the final score is 88.
\<close>

theorem scenario_A_below_90_counterexample:
  "final_score (score_event Map.empty \<lparr>hour = 12, weekday = 0\<rparr>
          [(''source'', JStr ''cloudtrail''),
           (''actor'', JObj [(''id'', JStr ''admin@x''), (''ip'', JStr ''203.0.113.1'')]),
           (''action'', JStr ''AdminLoginFailed''),
           (''resource'', JObj [(''type'', JStr ''database''), (''id'', JStr ''prod-db'')]),
           (''severity_hint'', JInt 5)]
          [(''threat_intel'', JObj [(''ip_rep'', JStr ''malicious''), (''rep_score'', JInt 90)]),
           (''geo'', JObj [(''country_code'', JStr ''US''), (''asn'', JInt 13335)]),
           (''asset_context'', JObj [(''environment'', JStr ''prod''), (''criticality'', JInt 5)])])
   = 88"
proof -
  let ?event = "[(''source'', JStr ''cloudtrail''),
           (''actor'', JObj [(''id'', JStr ''admin@x''), (''ip'', JStr ''203.0.113.1'')]),
           (''action'', JStr ''AdminLoginFailed''),
           (''resource'', JObj [(''type'', JStr ''database''), (''id'', JStr ''prod-db'')]),
           (''severity_hint'', JInt 5)]"
  let ?enr = "[(''threat_intel'', JObj [(''ip_rep'', JStr ''malicious''), (''rep_score'', JInt 90)]),
           (''geo'', JObj [(''country_code'', JStr ''US''), (''asn'', JInt 13335)]),
           (''asset_context'', JObj [(''environment'', JStr ''prod''), (''criticality'', JInt 5)])]"
  define f where "f = extract_features Map.empty \<lparr>hour = 12, weekday = 0\<rparr> ?event ?enr"
  have low: "lower ''AdminLoginFailed'' = ''adminloginfailed''" "lower ''database'' = ''database''"
    by (simp_all add: lower_def lower_char_def)
  have f: "f = [(''asn'', 13335), (''is_high_risk_country'', ind False), (''rep_score'', 9 / 10),
      (''is_malicious'', 1), (''is_suspicious'', 0), (''asset_criticality'', 1),
      (''is_prod_environment'', 1), (''hour_of_day'', 1 / 2), (''day_of_week'', 0),
      (''is_weekend'', ind False), (''is_business_hours'', ind True), (''is_login_action'', 1),
      (''is_failed_action'', 1), (''is_admin_action'', 1), (''is_critical_resource'', 1),
      (''severity_hint'', 1)]"
    unfolding f_def extract_features_def extract_features_try_def
    by (simp add: dict_get_def as_dict_def as_str_def py_float_def low sublist_Cons_right
          critical_resources_def high_risk_countries_def ind_simps)
  have rs: "rule_score (calculate_rule_score f) = 95"
    unfolding f scenario_scores(1) by simp
  have ms: "model_score (predict f) = 100 / (1 + exp (- (197 / 110)))"
    unfolding f scenario_scores(3) by (simp add: ind_simps)
  have lo: "4 / 25 < exp (- (197 / 110) :: real)" by (rule exp_neg_197_110_lower)
  have "exp (- (197 / 110) :: real) = 1 / exp (197 / 110)" by (simp add: exp_minus field_simps)
  also have "\<dots> \<le> 1 / (213 / 37)"
    using exp_197_110_lower by (intro divide_left_mono) simp_all
  finally have hi: "exp (- (197 / 110) :: real) \<le> 37 / 213" by simp
  have m1: "426 / 5 \<le> model_score (predict f)"
    unfolding ms using hi by (simp add: field_simps add_pos_pos)
  have m2: "model_score (predict f) < 2500 / 29"
    unfolding ms using lo by (simp add: field_simps add_pos_pos)
  have m0: "0 \<le> model_score (predict f)" "model_score (predict f) \<le> 100"
    using m1 m2 by simp_all
  have "88 \<le> fuse (model_score (predict f)) 95"
    by (rule fuse_lower) (use m1 m0 in simp_all)
  moreover have "fuse (model_score (predict f)) 95 \<le> 88"
    by (rule fuse_upper) (use m2 m0 in simp_all)
  ultimately have "fuse (model_score (predict f)) 95 = 88"
    by simp
  thus ?thesis
    by (simp add: score_event_def Let_def f_def [symmetric] rs)
qed

section \<open>Normalization\<close>

lemma normalize_event_SomeE:
  assumes "normalize_event fresh now raw_event source_ip = Some normalized"
  obtains raw actor' where
    "raw_event = JObj raw"
    "normalized =
       [(''event_id'', dict_get raw ''event_id'' (JStr fresh)),
        (''source'', dict_get raw ''source'' JNull),
        (''received_at'', JStr now),
        (''actor'', actor'),
        (''action'', dict_get raw ''action'' JNull),
        (''resource'', dict_get raw ''resource'' JNull),
        (''severity_hint'', dict_get raw ''severity_hint'' (JInt 1)),
        (''payload'', dict_get raw ''payload'' (JObj [])),
        (''schema_ver'', JStr ''1.0'')]"
  using assms unfolding normalize_event_def as_dict_def
  by (auto simp: Let_def split: Option.bind_splits json.splits)

lemma validate_accepts_keys:
  assumes "validate_event_schema (JObj raw) = Some (True, msg)"
  shows "map_of raw ''source'' \<noteq> None \<and> map_of raw ''actor'' \<noteq> None
       \<and> map_of raw ''action'' \<noteq> None \<and> map_of raw ''resource'' \<noteq> None"
  using assms
  by (simp add: validate_event_schema_def required_fields_def py_in_def split: if_splits)

text \<open>
  Claim C7, as the code has it.  A normalized event that passed the validation comes from
  a dictionary that has the keys \<open>source\<close> and \<open>action\<close>, and carries their values
  unchanged; its \<open>severity_hint\<close> is the raw value, 1 when the key is absent, and its
  \<open>event_id\<close> is the raw value, the fresh identifier when the key is absent.  Nothing is
  clamped and no value is checked for emptiness.
\<close>

theorem ingest_event_copies_raw:
  assumes "ingest_event fresh now source_ip raw_event = Normalized normalized"
  shows "\<exists>raw. raw_event = JObj raw
           \<and> (\<exists>v. map_of raw ''source'' = Some v \<and> map_of normalized ''source'' = Some v)
           \<and> (\<exists>v. map_of raw ''action'' = Some v \<and> map_of normalized ''action'' = Some v)
           \<and> map_of normalized ''severity_hint'' = Some (dict_get raw ''severity_hint'' (JInt 1))
           \<and> map_of normalized ''event_id'' = Some (dict_get raw ''event_id'' (JStr fresh))"
proof -
  from assms obtain msg where v: "validate_event_schema raw_event = Some (True, msg)"
    and nz: "normalize_event fresh now raw_event source_ip = Some normalized"
    by (auto simp: ingest_event_def split: option.splits prod.splits if_splits)
  from nz obtain raw actor' where r: "raw_event = JObj raw"
    and n: "normalized =
       [(''event_id'', dict_get raw ''event_id'' (JStr fresh)),
        (''source'', dict_get raw ''source'' JNull),
        (''received_at'', JStr now),
        (''actor'', actor'),
        (''action'', dict_get raw ''action'' JNull),
        (''resource'', dict_get raw ''resource'' JNull),
        (''severity_hint'', dict_get raw ''severity_hint'' (JInt 1)),
        (''payload'', dict_get raw ''payload'' (JObj [])),
        (''schema_ver'', JStr ''1.0'')]"
    by (rule normalize_event_SomeE)
  from v r have k: "map_of raw ''source'' \<noteq> None" "map_of raw ''action'' \<noteq> None"
    using validate_accepts_keys by blast+
  have s: "\<exists>v. map_of raw ''source'' = Some v \<and> map_of normalized ''source'' = Some v"
    unfolding n using k(1) by (auto simp: dict_get_def)
  have a: "\<exists>v. map_of raw ''action'' = Some v \<and> map_of normalized ''action'' = Some v"
    unfolding n using k(2) by (auto simp: dict_get_def)
  have h: "map_of normalized ''severity_hint'' = Some (dict_get raw ''severity_hint'' (JInt 1))"
    "map_of normalized ''event_id'' = Some (dict_get raw ''event_id'' (JStr fresh))"
    unfolding n by simp_all
  from r s a h show ?thesis by blast
qed

theorem ingest_event_copies_raw_witness:
  "ingest_event ''6f1c-fresh'' ''2026-01-01T00:00:00+00:00'' (JStr ''10.0.0.5'')
     (JObj [(''source'', JStr ''cloudtrail''),
            (''actor'', JObj [(''id'', JStr ''admin@x'')]),
            (''action'', JStr ''AdminLoginFailed''),
            (''resource'', JObj [(''type'', JStr ''database''), (''id'', JStr ''prod-db'')]),
            (''severity_hint'', JInt 5)])
   = Normalized [(''event_id'', JStr ''6f1c-fresh''),
           (''source'', JStr ''cloudtrail''),
           (''received_at'', JStr ''2026-01-01T00:00:00+00:00''),
           (''actor'', JObj [(''id'', JStr ''admin@x''), (''ip'', JStr ''10.0.0.5'')]),
           (''action'', JStr ''AdminLoginFailed''),
           (''resource'', JObj [(''type'', JStr ''database''), (''id'', JStr ''prod-db'')]),
           (''severity_hint'', JInt 5),
           (''payload'', JObj []),
           (''schema_ver'', JStr ''1.0'')]
   \<and> (\<exists>raw. JObj [(''source'', JStr ''cloudtrail''),
            (''actor'', JObj [(''id'', JStr ''admin@x'')]),
            (''action'', JStr ''AdminLoginFailed''),
            (''resource'', JObj [(''type'', JStr ''database''), (''id'', JStr ''prod-db'')]),
            (''severity_hint'', JInt 5)] = JObj raw
         \<and> (\<exists>v. map_of raw ''source'' = Some v \<and> v = JStr ''cloudtrail'')
         \<and> (\<exists>v. map_of raw ''action'' = Some v \<and> v = JStr ''AdminLoginFailed''))"
proof -
  have h: "ingest_event ''6f1c-fresh'' ''2026-01-01T00:00:00+00:00'' (JStr ''10.0.0.5'')
     (JObj [(''source'', JStr ''cloudtrail''),
            (''actor'', JObj [(''id'', JStr ''admin@x'')]),
            (''action'', JStr ''AdminLoginFailed''),
            (''resource'', JObj [(''type'', JStr ''database''), (''id'', JStr ''prod-db'')]),
            (''severity_hint'', JInt 5)])
   = Normalized [(''event_id'', JStr ''6f1c-fresh''),
           (''source'', JStr ''cloudtrail''),
           (''received_at'', JStr ''2026-01-01T00:00:00+00:00''),
           (''actor'', JObj [(''id'', JStr ''admin@x''), (''ip'', JStr ''10.0.0.5'')]),
           (''action'', JStr ''AdminLoginFailed''),
           (''resource'', JObj [(''type'', JStr ''database''), (''id'', JStr ''prod-db'')]),
           (''severity_hint'', JInt 5),
           (''payload'', JObj []),
           (''schema_ver'', JStr ''1.0'')]"
    by (simp add: ingest_event_def validate_event_schema_def required_fields_def
          normalize_event_def as_dict_def dict_get_def py_in_def truthy_def)
  from ingest_event_copies_raw [OF h] have "\<exists>raw. JObj [(''source'', JStr ''cloudtrail''),
            (''actor'', JObj [(''id'', JStr ''admin@x'')]),
            (''action'', JStr ''AdminLoginFailed''),
            (''resource'', JObj [(''type'', JStr ''database''), (''id'', JStr ''prod-db'')]),
            (''severity_hint'', JInt 5)] = JObj raw
         \<and> (\<exists>v. map_of raw ''source'' = Some v \<and> v = JStr ''cloudtrail'')
         \<and> (\<exists>v. map_of raw ''action'' = Some v \<and> v = JStr ''AdminLoginFailed'')"
    by auto
  with h show ?thesis by (rule conjI)
qed

text \<open>
  Claim C7 as stated fails: a raw event with an empty \<open>event_id\<close>, an empty \<open>source\<close>, a
  null \<open>action\<close> and a severity hint of 9 passes the validation and is normalized with
  these values.
\<close>

theorem ingest_event_empty_values_counterexample:
  "ingest_event ''6f1c-fresh'' ''2026-01-01T00:00:00+00:00'' JNull
     (JObj [(''event_id'', JStr ''''),
            (''source'', JStr ''''),
            (''actor'', JObj []),
            (''action'', JNull),
            (''resource'', JObj []),
            (''severity_hint'', JInt 9)])
   = Normalized [(''event_id'', JStr ''''),
           (''source'', JStr ''''),
           (''received_at'', JStr ''2026-01-01T00:00:00+00:00''),
           (''actor'', JObj []),
           (''action'', JNull),
           (''resource'', JObj []),
           (''severity_hint'', JInt 9),
           (''payload'', JObj []),
           (''schema_ver'', JStr ''1.0'')]"
  by (simp add: ingest_event_def validate_event_schema_def required_fields_def
        normalize_event_def as_dict_def dict_get_def py_in_def truthy_def Let_def)

text \<open>
  Claim C8, as the code has it.  The normalized \<open>event_id\<close> is the raw value when the key
  \<open>event_id\<close> is present, whatever the value, and the fresh identifier when it is absent.
\<close>

theorem normalize_event_id:
  assumes "normalize_event fresh now raw_event source_ip = Some normalized"
  shows "\<exists>raw. raw_event = JObj raw
           \<and> map_of normalized ''event_id'' =
               Some (case map_of raw ''event_id'' of Some v \<Rightarrow> v | None \<Rightarrow> JStr fresh)"
proof -
  from assms obtain raw actor' where r: "raw_event = JObj raw"
    and n: "normalized =
       [(''event_id'', dict_get raw ''event_id'' (JStr fresh)),
        (''source'', dict_get raw ''source'' JNull),
        (''received_at'', JStr now),
        (''actor'', actor'),
        (''action'', dict_get raw ''action'' JNull),
        (''resource'', dict_get raw ''resource'' JNull),
        (''severity_hint'', dict_get raw ''severity_hint'' (JInt 1)),
        (''payload'', dict_get raw ''payload'' (JObj [])),
        (''schema_ver'', JStr ''1.0'')]"
    by (rule normalize_event_SomeE)
  have "map_of normalized ''event_id'' =
      Some (case map_of raw ''event_id'' of Some v \<Rightarrow> v | None \<Rightarrow> JStr fresh)"
    unfolding n by (simp add: dict_get_def split: option.splits)
  with r show ?thesis by blast
qed


theorem normalize_event_id_witness:
  "normalize_event ''6f1c-fresh'' ''2026-01-01T00:00:00+00:00''
     (JObj [(''source'', JStr ''cloudtrail''),
            (''actor'', JObj [(''id'', JStr ''admin@x''), (''ip'', JStr ''203.0.113.1'')]),
            (''action'', JStr ''AdminLoginFailed''),
            (''resource'', JObj [(''type'', JStr ''database''), (''id'', JStr ''prod-db'')]),
            (''severity_hint'', JInt 5)])
     JNull
   = Some [(''event_id'', JStr ''6f1c-fresh''),
           (''source'', JStr ''cloudtrail''),
           (''received_at'', JStr ''2026-01-01T00:00:00+00:00''),
           (''actor'', JObj [(''id'', JStr ''admin@x''), (''ip'', JStr ''203.0.113.1'')]),
           (''action'', JStr ''AdminLoginFailed''),
           (''resource'', JObj [(''type'', JStr ''database''), (''id'', JStr ''prod-db'')]),
           (''severity_hint'', JInt 5),
           (''payload'', JObj []),
           (''schema_ver'', JStr ''1.0'')]
   \<and> (\<exists>raw. JObj [(''source'', JStr ''cloudtrail''),
            (''actor'', JObj [(''id'', JStr ''admin@x''), (''ip'', JStr ''203.0.113.1'')]),
            (''action'', JStr ''AdminLoginFailed''),
            (''resource'', JObj [(''type'', JStr ''database''), (''id'', JStr ''prod-db'')]),
            (''severity_hint'', JInt 5)] = JObj raw
         \<and> map_of [(''event_id'', JStr ''6f1c-fresh''),
           (''source'', JStr ''cloudtrail''),
           (''received_at'', JStr ''2026-01-01T00:00:00+00:00''),
           (''actor'', JObj [(''id'', JStr ''admin@x''), (''ip'', JStr ''203.0.113.1'')]),
           (''action'', JStr ''AdminLoginFailed''),
           (''resource'', JObj [(''type'', JStr ''database''), (''id'', JStr ''prod-db'')]),
           (''severity_hint'', JInt 5),
           (''payload'', JObj []),
           (''schema_ver'', JStr ''1.0'')] ''event_id'' =
             Some (case map_of raw ''event_id'' of Some v \<Rightarrow> v | None \<Rightarrow> JStr ''6f1c-fresh''))"
proof -
  have h: "normalize_event ''6f1c-fresh'' ''2026-01-01T00:00:00+00:00''
     (JObj [(''source'', JStr ''cloudtrail''),
            (''actor'', JObj [(''id'', JStr ''admin@x''), (''ip'', JStr ''203.0.113.1'')]),
            (''action'', JStr ''AdminLoginFailed''),
            (''resource'', JObj [(''type'', JStr ''database''), (''id'', JStr ''prod-db'')]),
            (''severity_hint'', JInt 5)])
     JNull
   = Some [(''event_id'', JStr ''6f1c-fresh''),
           (''source'', JStr ''cloudtrail''),
           (''received_at'', JStr ''2026-01-01T00:00:00+00:00''),
           (''actor'', JObj [(''id'', JStr ''admin@x''), (''ip'', JStr ''203.0.113.1'')]),
           (''action'', JStr ''AdminLoginFailed''),
           (''resource'', JObj [(''type'', JStr ''database''), (''id'', JStr ''prod-db'')]),
           (''severity_hint'', JInt 5),
           (''payload'', JObj []),
           (''schema_ver'', JStr ''1.0'')]"
    by (simp add: normalize_event_def as_dict_def dict_get_def py_in_def truthy_def)
  from h normalize_event_id [OF h] show ?thesis by (rule conjI)
qed

text \<open>
  Claim C8 as stated fails: a raw event whose \<open>event_id\<close> is the empty string keeps the
  empty string; no fresh identifier is used.
\<close>

theorem normalize_event_empty_id_counterexample:
  "normalize_event ''6f1c-fresh'' ''2026-01-01T00:00:00+00:00''
     (JObj [(''event_id'', JStr ''''),
            (''source'', JStr ''cloudtrail''),
            (''actor'', JObj [(''id'', JStr ''admin@x''), (''ip'', JStr ''203.0.113.1'')]),
            (''action'', JStr ''AdminLoginFailed''),
            (''resource'', JObj [(''type'', JStr ''database''), (''id'', JStr ''prod-db'')]),
            (''severity_hint'', JInt 5)])
     JNull
   = Some [(''event_id'', JStr ''''),
           (''source'', JStr ''cloudtrail''),
           (''received_at'', JStr ''2026-01-01T00:00:00+00:00''),
           (''actor'', JObj [(''id'', JStr ''admin@x''), (''ip'', JStr ''203.0.113.1'')]),
           (''action'', JStr ''AdminLoginFailed''),
           (''resource'', JObj [(''type'', JStr ''database''), (''id'', JStr ''prod-db'')]),
           (''severity_hint'', JInt 5),
           (''payload'', JObj []),
           (''schema_ver'', JStr ''1.0'')]"
  by (simp add: normalize_event_def as_dict_def dict_get_def py_in_def truthy_def)

section \<open>Enrichment\<close>

lemma map_of_dict_set:
  "map_of (dict_set d k v) k' = (if k' = k then Some v else map_of d k')"
  by (induction d k v rule: dict_set.induct) auto

text \<open>
  Claim C9.  For an event whose \<open>actor\<close> and \<open>resource\<close> are dictionaries (or absent),
  the enrichment returns the enriched event with no error: the threat-intel and geo
  bundles are present exactly when \<open>actor.ip\<close> is truthy (for a string: non-empty), the
  asset bundle exactly when \<open>resource.id\<close> and \<open>resource.type\<close> both are, a skipped lookup
  leaves no bundle, an attempted lookup puts the result of its service, and a service
  whose body raises returns its fallback values (unknown/50/no feeds; XX/0/unknown;
  unknown/1/unknown/no tags).  With no \<open>actor.ip\<close> and no resource identifiers all three
  bundles are absent.
\<close>

theorem enrich_event_branches:
  assumes a: "as_dict (dict_get event ''actor'' (JObj [])) = Some actor"
    and r: "as_dict (dict_get event ''resource'' (JObj [])) = Some resource"
  shows "\<exists>enr. map_of (enrich_event rt event) ''enrichments'' = Some (JObj enr)
       \<and> map_of (enrich_event rt event) ''status'' = Some (JStr ''enriched'')
       \<and> (map_of enr ''threat_intel'' \<noteq> None) = truthy (dict_get actor ''ip'' JNull)
       \<and> (map_of enr ''geo'' \<noteq> None) = truthy (dict_get actor ''ip'' JNull)
       \<and> (map_of enr ''asset_context'' \<noteq> None) =
            (truthy (dict_get resource ''id'' JNull) \<and> truthy (dict_get resource ''type'' JNull))
       \<and> (truthy (dict_get actor ''ip'' JNull) \<longrightarrow>
            map_of enr ''threat_intel'' =
              Some (JObj (lookup_ip_reputation rt (dict_get actor ''ip'' JNull)))
            \<and> map_of enr ''geo'' =
              Some (JObj (lookup_ip_location rt (dict_get actor ''ip'' JNull))))
       \<and> (truthy (dict_get resource ''id'' JNull) \<and> truthy (dict_get resource ''type'' JNull) \<longrightarrow>
            map_of enr ''asset_context'' =
              Some (JObj (get_asset_context (dict_get resource ''id'' JNull)
                            (dict_get resource ''type'' JNull))))
       \<and> (\<forall>ip. lookup_ip_reputation_try rt ip = None \<longrightarrow>
            map_of (lookup_ip_reputation rt ip) ''ip_rep'' = Some (JStr ''unknown'')
            \<and> map_of (lookup_ip_reputation rt ip) ''rep_score'' = Some (JInt 50)
            \<and> map_of (lookup_ip_reputation rt ip) ''feeds'' = Some (JList []))
       \<and> (\<forall>ip. lookup_ip_location_try rt ip = None \<longrightarrow>
            map_of (lookup_ip_location rt ip) ''country_code'' = Some (JStr ''XX'')
            \<and> map_of (lookup_ip_location rt ip) ''asn'' = Some (JInt 0)
            \<and> map_of (lookup_ip_location rt ip) ''org'' = Some (JStr ''unknown''))
       \<and> (\<forall>rid rtype. get_asset_context_try rid rtype = None \<longrightarrow>
            map_of (get_asset_context rid rtype) ''environment'' = Some (JStr ''unknown'')
            \<and> map_of (get_asset_context rid rtype) ''criticality'' = Some (JInt 1)
            \<and> map_of (get_asset_context rid rtype) ''owner'' = Some (JStr ''unknown'')
            \<and> map_of (get_asset_context rid rtype) ''tags'' = Some (JObj []))
       \<and> (\<forall>s. truthy (JStr s) = (s \<noteq> []))"
proof -
  define ip where "ip = dict_get actor ''ip'' JNull"
  define rid where "rid = dict_get resource ''id'' JNull"
  define rtype where "rtype = dict_get resource ''type'' JNull"
  define e1 where "e1 =
    (if truthy ip
     then [(''threat_intel'', JObj (lookup_ip_reputation rt ip)),
           (''geo'', JObj (lookup_ip_location rt ip))]
     else [])"
  define e2 where "e2 =
    (if truthy rid \<and> truthy rtype
     then e1 @ [(''asset_context'', JObj (get_asset_context rid rtype))]
     else e1)"
  define enr where "enr = e2 @
         [(''enrichment_metadata'',
           JObj [(''enriched_at'', JStr (now_iso rt)),
                 (''enricher_version'', JStr ''1.0.0''),
                 (''processing_time_ms'', JInt (processing_time rt)),
                 (''enrichments_added'', JInt (int (length e2)))])]"
  have g: "get2 event ''actor'' ''ip'' JNull = Some ip"
    "get2 event ''resource'' ''id'' JNull = Some rid"
    "get2 event ''resource'' ''type'' JNull = Some rtype"
    using a r by (simp_all add: get2_def ip_def rid_def rtype_def)
  have t: "enrich_event_try rt event =
      Some (dict_set (dict_set event ''enrichments'' (JObj enr)) ''status'' (JStr ''enriched''))"
    unfolding enrich_event_try_def g
    by (simp add: Let_def enr_def e2_def e1_def)
  have ee: "enrich_event rt event =
      dict_set (dict_set event ''enrichments'' (JObj enr)) ''status'' (JStr ''enriched'')"
    by (simp add: enrich_event_def t)
  have c1: "map_of (enrich_event rt event) ''enrichments'' = Some (JObj enr)"
    and c2: "map_of (enrich_event rt event) ''status'' = Some (JStr ''enriched'')"
    unfolding ee by (simp_all add: map_of_dict_set)
  have c3: "(map_of enr ''threat_intel'' \<noteq> None) = truthy ip"
    and c4: "(map_of enr ''geo'' \<noteq> None) = truthy ip"
    and c5: "(map_of enr ''asset_context'' \<noteq> None) = (truthy rid \<and> truthy rtype)"
    and c6: "truthy ip \<longrightarrow>
            map_of enr ''threat_intel'' = Some (JObj (lookup_ip_reputation rt ip))
            \<and> map_of enr ''geo'' = Some (JObj (lookup_ip_location rt ip))"
    and c7: "truthy rid \<and> truthy rtype \<longrightarrow>
            map_of enr ''asset_context'' = Some (JObj (get_asset_context rid rtype))"
    unfolding enr_def e2_def e1_def by (simp_all add: map_add_def)
  have f1: "\<forall>ip. lookup_ip_reputation_try rt ip = None \<longrightarrow>
            map_of (lookup_ip_reputation rt ip) ''ip_rep'' = Some (JStr ''unknown'')
            \<and> map_of (lookup_ip_reputation rt ip) ''rep_score'' = Some (JInt 50)
            \<and> map_of (lookup_ip_reputation rt ip) ''feeds'' = Some (JList [])"
    by (simp add: lookup_ip_reputation_def threat_intel_fallback_def)
  have f2: "\<forall>ip. lookup_ip_location_try rt ip = None \<longrightarrow>
            map_of (lookup_ip_location rt ip) ''country_code'' = Some (JStr ''XX'')
            \<and> map_of (lookup_ip_location rt ip) ''asn'' = Some (JInt 0)
            \<and> map_of (lookup_ip_location rt ip) ''org'' = Some (JStr ''unknown'')"
    by (simp add: lookup_ip_location_def geo_fallback_def)
  have f3: "\<forall>rid rtype. get_asset_context_try rid rtype = None \<longrightarrow>
            map_of (get_asset_context rid rtype) ''environment'' = Some (JStr ''unknown'')
            \<and> map_of (get_asset_context rid rtype) ''criticality'' = Some (JInt 1)
            \<and> map_of (get_asset_context rid rtype) ''owner'' = Some (JStr ''unknown'')
            \<and> map_of (get_asset_context rid rtype) ''tags'' = Some (JObj [])"
    by (simp add: get_asset_context_def asset_fallback_def)
  have f4: "\<forall>s. truthy (JStr s) = (s \<noteq> [])"
    by (simp add: truthy_def)
  from c1 c2 c3 c4 c5 c6 c7 f1 f2 f3 f4 show ?thesis
    unfolding ip_def rid_def rtype_def by blast
qed

theorem enrich_event_branches_witness:
  "as_dict (dict_get [(''event_id'', JStr ''e-1''),
                      (''actor'', JObj [(''id'', JStr ''admin@x''), (''ip'', JInt 12345)]),
                      (''resource'', JObj [(''type'', JStr ''database'')])]
              ''actor'' (JObj []))
     = Some [(''id'', JStr ''admin@x''), (''ip'', JInt 12345)]
   \<and> as_dict (dict_get [(''event_id'', JStr ''e-1''),
                      (''actor'', JObj [(''id'', JStr ''admin@x''), (''ip'', JInt 12345)]),
                      (''resource'', JObj [(''type'', JStr ''database'')])]
              ''resource'' (JObj []))
     = Some [(''type'', JStr ''database'')]
   \<and> (\<exists>enr. map_of (enrich_event \<lparr>hash = (\<lambda>s. 0), now_iso = ''2026-01-01T00:00:00+00:00'', processing_time = 3, exc_text = ''no attribute''\<rparr>
                  [(''event_id'', JStr ''e-1''),
                   (''actor'', JObj [(''id'', JStr ''admin@x''), (''ip'', JInt 12345)]),
                   (''resource'', JObj [(''type'', JStr ''database'')])])
               ''enrichments'' = Some (JObj enr)
          \<and> map_of enr ''geo'' = Some (JObj geo_fallback)
          \<and> map_of enr ''threat_intel'' = Some (JObj (threat_intel_fallback \<lparr>hash = (\<lambda>s. 0), now_iso = ''2026-01-01T00:00:00+00:00'', processing_time = 3, exc_text = ''no attribute''\<rparr>))
          \<and> map_of enr ''asset_context'' = None)"
proof -
  let ?rt = "\<lparr>hash = (\<lambda>s. 0), now_iso = ''2026-01-01T00:00:00+00:00'', processing_time = 3, exc_text = ''no attribute''\<rparr>"
  let ?event = "[(''event_id'', JStr ''e-1''),
                 (''actor'', JObj [(''id'', JStr ''admin@x''), (''ip'', JInt 12345)]),
                 (''resource'', JObj [(''type'', JStr ''database'')])]"
  have a: "as_dict (dict_get ?event ''actor'' (JObj []))
             = Some [(''id'', JStr ''admin@x''), (''ip'', JInt 12345)]"
    by (simp add: as_dict_def dict_get_def)
  have r: "as_dict (dict_get ?event ''resource'' (JObj [])) = Some [(''type'', JStr ''database'')]"
    by (simp add: as_dict_def dict_get_def)
  have ip: "dict_get [(''id'', JStr ''admin@x''), (''ip'', JInt 12345)] ''ip'' JNull = JInt 12345"
    and rid: "dict_get [(''type'', JStr ''database'')] ''id'' JNull = JNull"
    by (simp_all add: dict_get_def)
  have tr: "truthy (JInt 12345)" "\<not> truthy JNull"
    by (simp_all add: truthy_def)
  have fb: "lookup_ip_location ?rt (JInt 12345) = geo_fallback"
    "lookup_ip_reputation ?rt (JInt 12345) = threat_intel_fallback ?rt"
    by (simp_all add: lookup_ip_location_def lookup_ip_location_try_def
          lookup_ip_reputation_def lookup_ip_reputation_try_def as_str_def)
  from enrich_event_branches [OF a r, of "?rt"]
  obtain enr where e: "map_of (enrich_event ?rt ?event) ''enrichments'' = Some (JObj enr)"
    and t: "truthy (JInt 12345) \<longrightarrow>
            map_of enr ''threat_intel'' = Some (JObj (lookup_ip_reputation ?rt (JInt 12345)))
            \<and> map_of enr ''geo'' = Some (JObj (lookup_ip_location ?rt (JInt 12345)))"
    and s: "(map_of enr ''asset_context'' \<noteq> None) =
            (truthy JNull \<and> truthy (dict_get [(''type'', JStr ''database'')] ''type'' JNull))"
    unfolding ip rid by blast
  from t tr fb have g: "map_of enr ''geo'' = Some (JObj geo_fallback)"
    "map_of enr ''threat_intel'' = Some (JObj (threat_intel_fallback ?rt))"
    by simp_all
  from s tr have n: "map_of enr ''asset_context'' = None" by simp
  from e g n have "\<exists>enr. map_of (enrich_event ?rt ?event) ''enrichments'' = Some (JObj enr)
          \<and> map_of enr ''geo'' = Some (JObj geo_fallback)
          \<and> map_of enr ''threat_intel'' = Some (JObj (threat_intel_fallback ?rt))
          \<and> map_of enr ''asset_context'' = None"
    by blast
  with a r show ?thesis by blast
qed

section \<open>Geo fallback and the high-risk set\<close>

lemma rule_loop_cong:
  "(\<And>r. r \<in> set rs \<Longrightarrow> condition r f = condition r g) \<Longrightarrow> rule_loop rs f acc = rule_loop rs g acc"
  by (induction rs f acc rule: rule_loop.induct) simp_all

lemma calculate_rule_score_ignores_asn:
  "calculate_rule_score ((''asn'', a) # rest) = calculate_rule_score ((''asn'', b) # rest)"
proof -
  have "rule_loop rules ((''asn'', a) # rest) (0, []) = rule_loop rules ((''asn'', b) # rest) (0, [])"
    by (rule rule_loop_cong) (auto simp: rules_def fget_def)
  thus ?thesis by (simp add: calculate_rule_score_def)
qed

lemma weight_loop_ignores_asn:
  "weight_loop feature_weights ((''asn'', a) # rest) acc = weight_loop feature_weights ((''asn'', b) # rest) acc"
  by (cases acc) (simp add: weight_loop_sum feature_weights_def)

lemma model_score_ignores_asn:
  "model_score (predict ((''asn'', a) # rest)) = model_score (predict ((''asn'', b) # rest))"
  unfolding model_score_predict weight_loop_ignores_asn [of a rest _ b] ..

text \<open>
  Claim C10, as the code has it.  When the geo lookup fails, its bundle is the fallback
  with country code XX, which is in the high-risk set: a feature extraction that does not
  degrade sets \<open>is_high_risk_country\<close> to 1, and the rule engine and the model score the
  event as they score the same event with any geo bundle of a high-risk country whose
  \<open>asn\<close> converts to a float.
\<close>

theorem geo_failure_high_risk:
  assumes fail: "lookup_ip_location_try rt ip = None"
    and geo: "map_of enrichments ''geo'' = Some (JObj (lookup_ip_location rt ip))"
    and ok: "extract_features_try parse now event enrichments = Some f"
    and other: "\<forall>k. k \<noteq> ''geo'' \<longrightarrow> map_of enrichments' k = map_of enrichments k"
    and geo': "map_of enrichments' ''geo'' = Some (JObj geo')"
    and cc: "map_of geo' ''country_code'' = Some (JStr cc)" "cc \<in> set high_risk_countries"
    and asn: "py_float parse (dict_get geo' ''asn'' (JInt 0)) = Some asn"
  shows "map_of (lookup_ip_location rt ip) ''country_code'' = Some (JStr ''XX'')
       \<and> ''XX'' \<in> set high_risk_countries
       \<and> map_of f ''is_high_risk_country'' = Some 1
       \<and> calculate_rule_score (extract_features parse now event enrichments)
           = calculate_rule_score (extract_features parse now event enrichments')
       \<and> model_score (predict (extract_features parse now event enrichments))
           = model_score (predict (extract_features parse now event enrichments'))"
proof -
  have fb: "lookup_ip_location rt ip = geo_fallback"
    using fail by (simp add: lookup_ip_location_def)
  have xx: "''XX'' \<in> set high_risk_countries"
    by (simp add: high_risk_countries_def)
  have g1: "dict_get enrichments ''geo'' (JObj []) = JObj geo_fallback"
    using geo fb by (simp add: dict_get_def)
  have g2: "dict_get enrichments' ''geo'' (JObj []) = JObj geo'"
    using geo' by (simp add: dict_get_def)
  have o: "dict_get enrichments' ''threat_intel'' (JObj []) = dict_get enrichments ''threat_intel'' (JObj [])"
    "dict_get enrichments' ''asset_context'' (JObj []) = dict_get enrichments ''asset_context'' (JObj [])"
    using other by (simp_all add: dict_get_def)
  have v1: "dict_get geo_fallback ''asn'' (JInt 0) = JInt 0"
    "(dict_get geo_fallback ''country_code'' (JStr []) \<in> set (map JStr high_risk_countries)) = True"
    by (simp_all add: dict_get_def geo_fallback_def high_risk_countries_def)
  have v2: "(dict_get geo' ''country_code'' (JStr []) \<in> set (map JStr high_risk_countries)) = True"
    using cc by (simp add: dict_get_def)
  have pf: "py_float parse (JInt 0) = Some 0"
    by (simp add: py_float_def)
  from ok obtain rest where f: "f = (''asn'', 0) # (''is_high_risk_country'', 1) # rest"
    and f': "extract_features_try parse now event enrichments' =
               Some ((''asn'', asn) # (''is_high_risk_country'', 1) # rest)"
    unfolding extract_features_try_def g1 g2 o
    by (auto simp: as_dict_def pf asn v1 v2 ind_simps Let_def simp del: set_map
          split: Option.bind_splits)
  have c3: "map_of f ''is_high_risk_country'' = Some 1"
    unfolding f by simp
  have e1: "extract_features parse now event enrichments =
              (''asn'', 0) # (''is_high_risk_country'', 1) # rest"
    using ok f by (simp add: extract_features_def)
  have e2: "extract_features parse now event enrichments' =
              (''asn'', asn) # (''is_high_risk_country'', 1) # rest"
    using f' by (simp add: extract_features_def)
  have c4: "calculate_rule_score (extract_features parse now event enrichments)
           = calculate_rule_score (extract_features parse now event enrichments')"
    unfolding e1 e2 by (rule calculate_rule_score_ignores_asn)
  have c5: "model_score (predict (extract_features parse now event enrichments))
           = model_score (predict (extract_features parse now event enrichments'))"
    unfolding e1 e2 by (rule model_score_ignores_asn)
  from fb xx c3 c4 c5 show ?thesis
    by (simp add: geo_fallback_def)
qed

theorem geo_failure_high_risk_witness:
  "lookup_ip_location_try
     \<lparr>hash = (\<lambda>s. 0), now_iso = ''2026-01-01T00:00:00+00:00'', processing_time = 3,
      exc_text = ''no attribute''\<rparr> (JInt 12345) = None
   \<and> extract_features_try Map.empty \<lparr>hour = 12, weekday = 0\<rparr>
       [(''action'', JStr ''AdminLoginFailed''),
        (''resource'', JObj [(''type'', JStr ''database''), (''id'', JStr ''prod-db'')]),
        (''severity_hint'', JInt 5)]
       [(''geo'', JObj [(''country'', JStr ''unknown''), (''country_code'', JStr ''XX''),
                        (''asn'', JInt 0), (''org'', JStr ''unknown'')])]
     = Some [(''asn'', 0), (''is_high_risk_country'', 1), (''rep_score'', 1 / 2),
           (''is_malicious'', 0), (''is_suspicious'', 0), (''asset_criticality'', 1 / 5),
           (''is_prod_environment'', 0), (''hour_of_day'', 1 / 2), (''day_of_week'', 0),
           (''is_weekend'', 0), (''is_business_hours'', 1), (''is_login_action'', 1),
           (''is_failed_action'', 1), (''is_admin_action'', 1), (''is_critical_resource'', 1),
           (''severity_hint'', 1)]
   \<and> ''CN'' \<in> set high_risk_countries
   \<and> calculate_rule_score (extract_features Map.empty \<lparr>hour = 12, weekday = 0\<rparr>
       [(''action'', JStr ''AdminLoginFailed''),
        (''resource'', JObj [(''type'', JStr ''database''), (''id'', JStr ''prod-db'')]),
        (''severity_hint'', JInt 5)]
       [(''geo'', JObj [(''country'', JStr ''unknown''), (''country_code'', JStr ''XX''),
                        (''asn'', JInt 0), (''org'', JStr ''unknown'')])])
     = calculate_rule_score (extract_features Map.empty \<lparr>hour = 12, weekday = 0\<rparr>
       [(''action'', JStr ''AdminLoginFailed''),
        (''resource'', JObj [(''type'', JStr ''database''), (''id'', JStr ''prod-db'')]),
        (''severity_hint'', JInt 5)]
       [(''geo'', JObj [(''country_code'', JStr ''CN''), (''asn'', JInt 4134)])])"
proof -
  let ?rt = "\<lparr>hash = (\<lambda>s. 0), now_iso = ''2026-01-01T00:00:00+00:00'', processing_time = 3,
      exc_text = ''no attribute''\<rparr>"
  let ?event = "[(''action'', JStr ''AdminLoginFailed''),
        (''resource'', JObj [(''type'', JStr ''database''), (''id'', JStr ''prod-db'')]),
        (''severity_hint'', JInt 5)]"
  let ?enr = "[(''geo'', JObj [(''country'', JStr ''unknown''), (''country_code'', JStr ''XX''),
                        (''asn'', JInt 0), (''org'', JStr ''unknown'')])]"
  let ?enr' = "[(''geo'', JObj [(''country_code'', JStr ''CN''), (''asn'', JInt 4134)])]"
  have fail: "lookup_ip_location_try ?rt (JInt 12345) = None"
    by (simp add: lookup_ip_location_try_def as_str_def)
  have geo: "map_of ?enr ''geo'' = Some (JObj (lookup_ip_location ?rt (JInt 12345)))"
    by (simp add: lookup_ip_location_def fail geo_fallback_def)
  have ok: "extract_features_try Map.empty \<lparr>hour = 12, weekday = 0\<rparr> ?event ?enr
     = Some [(''asn'', 0), (''is_high_risk_country'', 1), (''rep_score'', 1 / 2),
           (''is_malicious'', 0), (''is_suspicious'', 0), (''asset_criticality'', 1 / 5),
           (''is_prod_environment'', 0), (''hour_of_day'', 1 / 2), (''day_of_week'', 0),
           (''is_weekend'', 0), (''is_business_hours'', 1), (''is_login_action'', 1),
           (''is_failed_action'', 1), (''is_admin_action'', 1), (''is_critical_resource'', 1),
           (''severity_hint'', 1)]"
    by (simp add: extract_features_try_def dict_get_def as_dict_def as_str_def py_float_def
        lower_def lower_char_def sublist_Cons_right ind_def high_risk_countries_def
        critical_resources_def)
  have other: "\<forall>k. k \<noteq> ''geo'' \<longrightarrow> map_of ?enr' k = map_of ?enr k"
    by simp
  have geo': "map_of ?enr' ''geo'' = Some (JObj [(''country_code'', JStr ''CN''), (''asn'', JInt 4134)])"
    by simp
  have cc: "map_of [(''country_code'', JStr ''CN''), (''asn'', JInt 4134)] ''country_code'' = Some (JStr ''CN'')"
    "''CN'' \<in> set high_risk_countries"
    by (simp_all add: high_risk_countries_def)
  have asn: "py_float Map.empty
      (dict_get [(''country_code'', JStr ''CN''), (''asn'', JInt 4134)] ''asn'' (JInt 0)) = Some 4134"
    by (simp add: dict_get_def py_float_def)
  note t = geo_failure_high_risk [OF fail geo ok other geo' cc asn]
  from t have "calculate_rule_score (extract_features Map.empty \<lparr>hour = 12, weekday = 0\<rparr> ?event ?enr)
     = calculate_rule_score (extract_features Map.empty \<lparr>hour = 12, weekday = 0\<rparr> ?event ?enr')"
    by blast
  with fail ok cc(2) show ?thesis by blast
qed

text \<open>
  Claim C10 as stated fails: for an event whose \<open>resource.type\<close> is the number 5 the
  extraction raises on \<^verbatim>\<open>lower\<close>, the feature set is empty, and with the geo fallback
  bundle \<open>is_high_risk_country\<close> is not set at all.
\<close>

theorem geo_failure_degraded_counterexample:
  "lookup_ip_location_try
     \<lparr>hash = (\<lambda>s. 0), now_iso = ''2026-01-01T00:00:00+00:00'', processing_time = 3,
      exc_text = ''no attribute''\<rparr> (JInt 12345) = None
   \<and> extract_features Map.empty \<lparr>hour = 12, weekday = 0\<rparr>
       [(''action'', JStr ''AdminLoginFailed''),
        (''resource'', JObj [(''type'', JInt 5), (''id'', JStr ''prod-db'')]),
        (''severity_hint'', JInt 5)]
       [(''geo'', JObj (lookup_ip_location
          \<lparr>hash = (\<lambda>s. 0), now_iso = ''2026-01-01T00:00:00+00:00'', processing_time = 3,
           exc_text = ''no attribute''\<rparr> (JInt 12345)))]
     = []
   \<and> map_of (extract_features Map.empty \<lparr>hour = 12, weekday = 0\<rparr>
       [(''action'', JStr ''AdminLoginFailed''),
        (''resource'', JObj [(''type'', JInt 5), (''id'', JStr ''prod-db'')]),
        (''severity_hint'', JInt 5)]
       [(''geo'', JObj (lookup_ip_location
          \<lparr>hash = (\<lambda>s. 0), now_iso = ''2026-01-01T00:00:00+00:00'', processing_time = 3,
           exc_text = ''no attribute''\<rparr> (JInt 12345)))])
     ''is_high_risk_country'' = None"
  by (simp add: lookup_ip_location_def lookup_ip_location_try_def geo_fallback_def
        extract_features_def extract_features_try_def dict_get_def as_dict_def as_str_def
        py_float_def)

end
